theory Spec2Isabelle
  imports Main
begin

section \<open>QR attendance: token codec, session ledger and redemption pipeline\<close>

text \<open>
  A shallow embedding of \<^verbatim>\<open>utils/qrGenerator.js\<close> (the token signer and validator),
  of the handlers of \<^verbatim>\<open>routes/attendance.js\<close> that start and stop a session, mint a
  credential and redeem one, and of the two schemas \<^verbatim>\<open>models/Attendance.js\<close> and
  \<^verbatim>\<open>models/AttendanceSession.js\<close>.

  Conventions of the embedding:
  \<^item> JavaScript strings are \<^typ>\<open>string\<close>.
  \<^item> A \<^verbatim>\<open>Buffer\<close> is a list of bytes; a byte is a \<^typ>\<open>char\<close>, read as a number by
    \<^const>\<open>of_char\<close>.
  \<^item> JSON numbers are integers (the minted tokens carry \<^verbatim>\<open>v: 1\<close> and a timestamp in
    whole seconds); \<^verbatim>\<open>NaN\<close> is \<open>None\<close> where a number is computed.
  \<^item> The clock is an argument: \<open>now_ms\<close> is what \<^verbatim>\<open>Date.now()\<close> returns, read once for
    each request.
  \<^item> \<^verbatim>\<open>req.user.id\<close> is the id that the identity layer has verified, a canonical
    \<^verbatim>\<open>ObjectId\<close> string; the request bodies are strings.
  \<^item> Every \<^verbatim>\<open>throw\<close> is a value; every \<^verbatim>\<open>catch\<close> is a case distinction.
  \<^item> The functions of Node.js and of its packages that the code calls (zlib, base64 and
    UTF-8 transcoding, JSON, HMAC-SHA256, the QR renderer, the calendar date of a
    timestamp, the case mapping and trimming of strings, the casts of the storage library)
    are the fields of a record \<open>runtime\<close> that every operation receives.
\<close>

subsection \<open>Values\<close>

type_synonym byte = char
type_synonym buffer = "byte list"

datatype json =
    JNull
  | JBool bool
  | JNum int
  | JStr string
  | JArr "json list"
  | JObj "(string \<times> json) list"

text \<open>Exceptions that the validator's outer \<^verbatim>\<open>catch\<close> can receive.\<close>

datatype js_exn =
    NullPropertyAccess \<comment> \<open>TypeError: cannot read properties of null\<close>
  | InvalidArgType \<comment> \<open>TypeError \<^verbatim>\<open>ERR_INVALID_ARG_TYPE\<close> of \<^verbatim>\<open>hmac.update\<close> and \<^verbatim>\<open>Buffer.from\<close>\<close>
  | TimingSafeEqualLength \<comment> \<open>RangeError: Input buffers must have the same byte length\<close>

record runtime =
  base64_decode :: "string \<Rightarrow> buffer" \<comment> \<open>\<^verbatim>\<open>Buffer.from(s, "base64")\<close>\<close>
  base64_encode :: "buffer \<Rightarrow> string" \<comment> \<open>\<^verbatim>\<open>buf.toString("base64")\<close>\<close>
  inflateSync :: "buffer \<Rightarrow> buffer option" \<comment> \<open>\<open>None\<close>: \<^verbatim>\<open>zlib.inflateSync\<close> throws\<close>
  deflateSync :: "buffer \<Rightarrow> buffer"
  utf8_encode :: "string \<Rightarrow> buffer" \<comment> \<open>\<^verbatim>\<open>Buffer.from(s)\<close>\<close>
  utf8_decode :: "buffer \<Rightarrow> string" \<comment> \<open>\<^verbatim>\<open>buf.toString()\<close>\<close>
  JSON_parse :: "string \<Rightarrow> json option" \<comment> \<open>\<open>None\<close>: \<^verbatim>\<open>JSON.parse\<close> throws\<close>
  JSON_stringify :: "json \<Rightarrow> string"
  hmac_sha256 :: "string \<Rightarrow> string \<Rightarrow> buffer"
    \<comment> \<open>\<^verbatim>\<open>crypto.createHmac("sha256", key).update(msg).digest()\<close>\<close>
  Buffer_from_object :: "json \<Rightarrow> buffer option"
    \<comment> \<open>\<^verbatim>\<open>Buffer.from(x, "hex")\<close> for an array or object \<open>x\<close>; \<open>None\<close>: it throws\<close>
  ToNumber :: "json \<Rightarrow> int option"
    \<comment> \<open>the numeric coercion of a value that is not a number; \<open>None\<close>: \<^verbatim>\<open>NaN\<close>\<close>
  QRCode_toDataURL :: "string \<Rightarrow> string option" \<comment> \<open>\<open>None\<close>: the renderer rejects\<close>
  toISODate :: "int \<Rightarrow> string"
    \<comment> \<open>\<^verbatim>\<open>new Date(ms).toISOString().split("T")[0]\<close>\<close>
  castObjectId :: "json \<Rightarrow> string option"
    \<comment> \<open>the storage library's cast of a query value to an \<^verbatim>\<open>ObjectId\<close>, as its canonical
        string; \<open>None\<close>: \<^verbatim>\<open>CastError\<close>\<close>
  castString :: "json \<Rightarrow> string option"
    \<comment> \<open>the storage library's cast of a value that is not a string to the element type of
        \<^verbatim>\<open>usedNonces\<close>; \<open>None\<close>: \<^verbatim>\<open>CastError\<close>\<close>
  array_includes :: "string list \<Rightarrow> json \<Rightarrow> bool"
    \<comment> \<open>\<^verbatim>\<open>usedNonces.includes(x)\<close> of the storage library's array for an \<open>x\<close> that is not a
        string\<close>
  toUpperCase :: "string \<Rightarrow> string" \<comment> \<open>\<^verbatim>\<open>String.prototype.toUpperCase\<close>\<close>
  toLowerCase :: "string \<Rightarrow> string" \<comment> \<open>\<^verbatim>\<open>String.prototype.toLowerCase\<close>\<close>
  trim :: "string \<Rightarrow> string" \<comment> \<open>\<^verbatim>\<open>String.prototype.trim\<close>\<close>

subsection \<open>Hexadecimal text\<close>

definition hex_digit :: "nat \<Rightarrow> char" where
  "hex_digit n = ''0123456789abcdef'' ! n"

definition hex_value :: "char \<Rightarrow> nat option" where
  "hex_value c =
     (let k = (of_char c :: nat)
      in if 48 \<le> k \<and> k \<le> 57 then Some (k - 48)
         else if 97 \<le> k \<and> k \<le> 102 then Some (k - 87)
         else if 65 \<le> k \<and> k \<le> 70 then Some (k - 55)
         else None)"

text \<open>\<^verbatim>\<open>buf.toString("hex")\<close> and \<^verbatim>\<open>hmac.digest("hex")\<close>: two lower-case digits a byte.\<close>

fun hex_encode :: "buffer \<Rightarrow> string" where
  "hex_encode [] = []"
| "hex_encode (b # bs) =
     hex_digit (of_char b div 16) # hex_digit (of_char b mod 16) # hex_encode bs"

text \<open>
  \<^verbatim>\<open>Buffer.from(s, "hex")\<close> on a string: pairs of digits are decoded up to the first pair
  that is not hexadecimal; a trailing single character is dropped.
\<close>

fun hex_decode :: "string \<Rightarrow> buffer" where
  "hex_decode (a # b # cs) =
     (case hex_value a of
        None \<Rightarrow> []
      | Some h \<Rightarrow>
          (case hex_value b of
             None \<Rightarrow> []
           | Some l \<Rightarrow> char_of (16 * h + l) # hex_decode cs))"
| "hex_decode cs = []"

subsection \<open>Configuration\<close>

record config =
  QR_SECRET :: string
  QR_TOKEN_VALIDITY :: int

text \<open>
  \<^verbatim>\<open>process.env.QR_SECRET || "default_qr_secret_change_me"\<close> and
  \<^verbatim>\<open>parseInt(process.env.QR_TOKEN_VALIDITY) || 3\<close>. The second argument is the result of
  \<^verbatim>\<open>parseInt\<close>, \<open>None\<close> for \<^verbatim>\<open>NaN\<close>.
\<close>

definition load_config :: "string option \<Rightarrow> int option \<Rightarrow> config" where
  "load_config env_secret parsed_validity =
     \<lparr> QR_SECRET =
         (case env_secret of
            None \<Rightarrow> ''default_qr_secret_change_me''
          | Some s \<Rightarrow> if s = [] then ''default_qr_secret_change_me'' else s),
       QR_TOKEN_VALIDITY =
         (case parsed_validity of
            None \<Rightarrow> 3
          | Some n \<Rightarrow> if n = 0 then 3 else n) \<rparr>"

subsection \<open>Property access and truthiness\<close>

text \<open>
  \<open>get_prop x k\<close> is \<^verbatim>\<open>x.k\<close> for a value that \<^verbatim>\<open>JSON.parse\<close> returned and a key among
  \<^verbatim>\<open>p, s, v, sid, tid, ts, n\<close>: it throws on \<^verbatim>\<open>null\<close>, reads the own property of an
  object and is \<^verbatim>\<open>undefined\<close> (\<open>None\<close>) on a number, a boolean, a string or an array.
  An object is the list of its own properties, keys distinct.
\<close>

fun get_prop :: "json \<Rightarrow> string \<Rightarrow> js_exn + json option" where
  "get_prop JNull k = Inl NullPropertyAccess"
| "get_prop (JObj kvs) k = Inr (map_of kvs k)"
| "get_prop x k = Inr None"

fun truthy :: "json \<Rightarrow> bool" where
  "truthy JNull = False"
| "truthy (JBool b) = b"
| "truthy (JNum n) = (n \<noteq> 0)"
| "truthy (JStr s) = (s \<noteq> [])"
| "truthy (JArr xs) = True"
| "truthy (JObj kvs) = True"

subsection \<open>The token: \<^verbatim>\<open>generateQRPayload\<close> and \<^verbatim>\<open>validateQRPayload\<close>\<close>

record qr_payload =
  p_version :: json
  p_sessionId :: json
  p_teacherId :: json
  p_subjectCode :: json
  p_timestamp :: json
  p_nonce :: json

text \<open>One constructor for each \<^verbatim>\<open>error\<close> string that \<^verbatim>\<open>validateQRPayload\<close> returns.\<close>

datatype qr_error =
    DecompressionFailed \<comment> \<open>\<^verbatim>\<open>Invalid QR data: decompression failed\<close>\<close>
  | MalformedStructure \<comment> \<open>\<^verbatim>\<open>Invalid QR data: malformed structure\<close>\<close>
  | MissingFields \<comment> \<open>\<^verbatim>\<open>Invalid QR data: missing fields\<close>\<close>
  | SignatureMismatch \<comment> \<open>\<^verbatim>\<open>Invalid QR data: signature mismatch (tampered)\<close>\<close>
  | MalformedPayload \<comment> \<open>\<^verbatim>\<open>Invalid QR data: malformed payload\<close>\<close>
  | IncompletePayload \<comment> \<open>\<^verbatim>\<open>Invalid QR data: incomplete payload\<close>\<close>
  | FutureTimestamp \<comment> \<open>\<^verbatim>\<open>Invalid QR data: future timestamp\<close>\<close>
  | Expired \<comment> \<open>\<^verbatim>\<open>QR code has expired\<close>\<close>
  | QRValidationFailed js_exn \<comment> \<open>\<^verbatim>\<open>QR validation failed: \<close> and the exception's message\<close>

record qr_validation =
  valid :: bool
  payload :: "qr_payload option"
  error :: "qr_error option"

definition invalid :: "qr_error \<Rightarrow> qr_validation" where
  "invalid e = \<lparr> valid = False, payload = None, error = Some e \<rparr>"

definition payload_object :: "string \<Rightarrow> string \<Rightarrow> string \<Rightarrow> int \<Rightarrow> string \<Rightarrow> json" where
  "payload_object sessionId teacherId subjectCode ts nonce =
     JObj [(''v'', JNum 1), (''sid'', JStr sessionId), (''tid'', JStr teacherId),
           (''sub'', JStr subjectCode), (''ts'', JNum ts), (''n'', JStr nonce)]"

definition signed_object :: "string \<Rightarrow> string \<Rightarrow> json" where
  "signed_object payloadStr signature = JObj [(''p'', JStr payloadStr), (''s'', JStr signature)]"

text \<open>
  \<open>rnd\<close> is the result of \<^verbatim>\<open>crypto.randomBytes(16)\<close>. The result is the pair
  \<^verbatim>\<open>{ qrData, nonce }\<close>.
\<close>

definition generateQRPayload ::
  "runtime \<Rightarrow> config \<Rightarrow> int \<Rightarrow> buffer \<Rightarrow> string \<Rightarrow> string \<Rightarrow> string \<Rightarrow> string \<times> string" where
  "generateQRPayload L cfg now_ms rnd sessionId teacherId subjectCode =
     (let nonce = hex_encode rnd;
          payloadStr = JSON_stringify L
            (payload_object sessionId teacherId subjectCode (now_ms div 1000) nonce);
          signature = hex_encode (hmac_sha256 L (QR_SECRET cfg) payloadStr);
          signedData = JSON_stringify L (signed_object payloadStr signature);
          compressed = deflateSync L (utf8_encode L signedData);
          qrData = base64_encode L compressed
      in (qrData, nonce))"

text \<open>
  \<^verbatim>\<open>crypto.timingSafeEqual(a, b)\<close> throws when the two buffers differ in length.
\<close>

definition timingSafeEqual :: "buffer \<Rightarrow> buffer \<Rightarrow> js_exn + bool" where
  "timingSafeEqual a b =
     (if length a \<noteq> length b then Inl TimingSafeEqualLength else Inr (a = b))"

text \<open>\<^verbatim>\<open>Buffer.from(x, "hex")\<close> for the truthy value \<open>x\<close> of \<^verbatim>\<open>signedData.s\<close>.\<close>

fun Buffer_from_hex :: "runtime \<Rightarrow> json \<Rightarrow> js_exn + buffer" where
  "Buffer_from_hex L (JStr s) = Inr (hex_decode s)"
| "Buffer_from_hex L (JArr xs) =
     (case Buffer_from_object L (JArr xs) of None \<Rightarrow> Inl InvalidArgType | Some b \<Rightarrow> Inr b)"
| "Buffer_from_hex L (JObj kvs) =
     (case Buffer_from_object L (JObj kvs) of None \<Rightarrow> Inl InvalidArgType | Some b \<Rightarrow> Inr b)"
| "Buffer_from_hex L x = Inl InvalidArgType"

text \<open>Steps 1 to 3: Base64, inflate, parse the signed structure.\<close>

definition decode_signed :: "runtime \<Rightarrow> string \<Rightarrow> qr_error + json" where
  "decode_signed L qrData =
     (let compressed = base64_decode L qrData
      in case inflateSync L compressed of
           None \<Rightarrow> Inl DecompressionFailed
         | Some inflated \<Rightarrow>
             (case JSON_parse L (utf8_decode L inflated) of
                None \<Rightarrow> Inl MalformedStructure
              | Some signedData \<Rightarrow> Inr signedData))"

text \<open>
  The test \<^verbatim>\<open>!signedData.p || !signedData.s\<close> and step 4, the signature. The result is
  the payload string \<^verbatim>\<open>signedData.p\<close>.
\<close>

definition verify_signature :: "runtime \<Rightarrow> config \<Rightarrow> json \<Rightarrow> qr_error + string" where
  "verify_signature L cfg signedData =
     (case get_prop signedData ''p'' of
        Inl ex \<Rightarrow> Inl (QRValidationFailed ex)
      | Inr None \<Rightarrow> Inl MissingFields
      | Inr (Some p) \<Rightarrow>
          if \<not> truthy p then Inl MissingFields
          else (case get_prop signedData ''s'' of
            Inl ex \<Rightarrow> Inl (QRValidationFailed ex)
          | Inr None \<Rightarrow> Inl MissingFields
          | Inr (Some s) \<Rightarrow>
              if \<not> truthy s then Inl MissingFields
              else (case p of
                JStr payloadStr \<Rightarrow>
                  (let expectedSignature = hex_encode (hmac_sha256 L (QR_SECRET cfg) payloadStr)
                   in case Buffer_from_hex L s of
                        Inl ex \<Rightarrow> Inl (QRValidationFailed ex)
                      | Inr given \<Rightarrow>
                          (case timingSafeEqual given (hex_decode expectedSignature) of
                             Inl ex \<Rightarrow> Inl (QRValidationFailed ex)
                           | Inr same \<Rightarrow>
                               if \<not> same then Inl SignatureMismatch else Inr payloadStr))
              | other \<Rightarrow> Inl (QRValidationFailed InvalidArgType))))"

text \<open>
  Steps 5 and 6: parse the inner payload and require its six fields. \<open>required_fields\<close>
  is \<open>None\<close> when one of \<^verbatim>\<open>v, sid, tid, sub, ts, n\<close> is missing or falsy.
\<close>

definition required_fields :: "(string \<times> json) list \<Rightarrow> qr_payload option" where
  "required_fields kvs =
     Option.bind (map_of kvs ''v'') (\<lambda>v.
     Option.bind (map_of kvs ''sid'') (\<lambda>sid.
     Option.bind (map_of kvs ''tid'') (\<lambda>tid.
     Option.bind (map_of kvs ''sub'') (\<lambda>sub.
     Option.bind (map_of kvs ''ts'') (\<lambda>ts.
     Option.bind (map_of kvs ''n'') (\<lambda>n.
       if truthy v \<and> truthy sid \<and> truthy tid \<and> truthy sub \<and> truthy ts \<and> truthy n
       then Some \<lparr> p_version = v, p_sessionId = sid, p_teacherId = tid,
                     p_subjectCode = sub, p_timestamp = ts, p_nonce = n \<rparr>
       else None))))))"

definition parse_payload :: "runtime \<Rightarrow> string \<Rightarrow> qr_error + qr_payload" where
  "parse_payload L payloadStr =
     (case JSON_parse L payloadStr of
        None \<Rightarrow> Inl MalformedPayload
      | Some JNull \<Rightarrow> Inl (QRValidationFailed NullPropertyAccess)
      | Some (JObj kvs) \<Rightarrow>
          (case required_fields kvs of
             None \<Rightarrow> Inl IncompletePayload
           | Some pl \<Rightarrow> Inr pl)
      | Some other \<Rightarrow> Inl IncompletePayload)"

text \<open>
  \<^verbatim>\<open>now - payload.ts\<close>: \<open>None\<close> is \<^verbatim>\<open>NaN\<close>, for which both comparisons of step 7 are
  false.
\<close>

definition token_age :: "runtime \<Rightarrow> int \<Rightarrow> json \<Rightarrow> int option" where
  "token_age L now ts =
     (case ts of
        JNum t \<Rightarrow> Some (now - t)
      | other \<Rightarrow> map_option (\<lambda>t. now - t) (ToNumber L other))"

text \<open>Step 7: the freshness window.\<close>

definition check_freshness :: "runtime \<Rightarrow> config \<Rightarrow> int \<Rightarrow> qr_payload \<Rightarrow> qr_error + qr_payload" where
  "check_freshness L cfg now_ms pl =
     (let now = now_ms div 1000
      in case token_age L now (p_timestamp pl) of
           None \<Rightarrow> Inr pl
         | Some age \<Rightarrow>
             if age < 0 then Inl FutureTimestamp
             else if age > QR_TOKEN_VALIDITY cfg then Inl Expired
             else Inr pl)"

definition validateQRPayload :: "runtime \<Rightarrow> config \<Rightarrow> int \<Rightarrow> string \<Rightarrow> qr_validation" where
  "validateQRPayload L cfg now_ms qrData =
     (case decode_signed L qrData of
        Inl e \<Rightarrow> invalid e
      | Inr signedData \<Rightarrow>
          (case verify_signature L cfg signedData of
             Inl e \<Rightarrow> invalid e
           | Inr payloadStr \<Rightarrow>
               (case parse_payload L payloadStr of
                  Inl e \<Rightarrow> invalid e
                | Inr pl \<Rightarrow>
                    (case check_freshness L cfg now_ms pl of
                       Inl e \<Rightarrow> invalid e
                     | Inr ok \<Rightarrow> \<lparr> valid = True, payload = Some ok, error = None \<rparr>))))"

subsection \<open>Arrays\<close>

text \<open>\<^verbatim>\<open>xs.slice(start)\<close>: a negative \<open>start\<close> counts from the end.\<close>

definition slice_from :: "int \<Rightarrow> 'a list \<Rightarrow> 'a list" where
  "slice_from start xs =
     (let len = int (length xs);
          k = (if start < 0 then max (len + start) 0 else min start len)
      in drop (nat k) xs)"

subsection \<open>Documents and collections\<close>

text \<open>
  A collection is the list of its documents in insertion order; \<^verbatim>\<open>findOne\<close> returns the
  first match. An \<^verbatim>\<open>ObjectId\<close> is its canonical string. \<^verbatim>\<open>s_endTime = None\<close> is
  \<^verbatim>\<open>endTime: null\<close>.
\<close>

record attendance_session =
  s_id :: string
  s_subjectCode :: string
  s_teacherId :: string
  s_date :: string
  s_startTime :: int
  s_endTime :: "int option"
  s_active :: bool
  s_usedNonces :: "string list"

record attendance =
  a_studentId :: string
  a_subjectCode :: string
  a_sessionId :: string
  a_date :: string
  a_timestamp :: int

record user =
  u_id :: string
  u_department :: string

record subject =
  sub_subjectCode :: string
  sub_department :: string

record teacher =
  t_userId :: string
  t_subjectCodes :: "string list"

record store =
  sessions :: "attendance_session list"
  attendances :: "attendance list"
  users :: "user list"
  subjects :: "subject list"
  teachers :: "teacher list"

text \<open>What a handler's \<^verbatim>\<open>catch\<close> can receive from the storage layer or from a method call.\<close>

datatype thrown =
    MongoServerError nat \<comment> \<open>with its \<^verbatim>\<open>code\<close>\<close>
  | CastError
  | TypeError

fun error_code :: "thrown \<Rightarrow> nat option" where
  "error_code (MongoServerError c) = Some c"
| "error_code e = None"

text \<open>
  The schema options \<^verbatim>\<open>trim: true, uppercase: true\<close> of the \<^verbatim>\<open>subjectCode\<close> paths, which
  the storage library applies to the value of a new document and to the value in a query
  filter.
\<close>

definition subjectCode_setter :: "runtime \<Rightarrow> string \<Rightarrow> string" where
  "subjectCode_setter L s = toUpperCase L (trim L s)"

text \<open>
  The compound unique index \<^verbatim>\<open>{ studentId: 1, subjectCode: 1, date: 1 }\<close> of
  \<^verbatim>\<open>models/Attendance.js\<close>: the key of a document, and the insert that the index guards.
\<close>

definition attendance_key :: "attendance \<Rightarrow> string \<times> string \<times> string" where
  "attendance_key a = (a_studentId a, a_subjectCode a, a_date a)"

definition Attendance_insert :: "store \<Rightarrow> attendance \<Rightarrow> thrown + store" where
  "Attendance_insert st a =
     (if attendance_key a \<in> set (map attendance_key (attendances st))
      then Inl (MongoServerError 11000)
      else Inr (st\<lparr>attendances := attendances st @ [a]\<rparr>))"

text \<open>Inserting a session; \<^verbatim>\<open>_id\<close> is unique in every collection.\<close>

definition Session_insert :: "store \<Rightarrow> attendance_session \<Rightarrow> thrown + store" where
  "Session_insert st s =
     (if s_id s \<in> set (map s_id (sessions st))
      then Inl (MongoServerError 11000)
      else Inr (st\<lparr>sessions := sessions st @ [s]\<rparr>))"

text \<open>
  \<^verbatim>\<open>doc.save()\<close> of a loaded session writes the modified paths to the stored document
  with the same \<^verbatim>\<open>_id\<close>: \<open>Session_close\<close> after \<^verbatim>\<open>active = false; endTime = new Date()\<close>,
  \<open>Session_pushNonce\<close> after \<^verbatim>\<open>usedNonces.push(nonce)\<close>.
\<close>

definition Session_close :: "store \<Rightarrow> string \<Rightarrow> int \<Rightarrow> store" where
  "Session_close st sid now_ms =
     st\<lparr>sessions :=
          map (\<lambda>s. if s_id s = sid then s\<lparr>s_active := False, s_endTime := Some now_ms\<rparr> else s)
            (sessions st)\<rparr>"

definition Session_pushNonce :: "store \<Rightarrow> string \<Rightarrow> string \<Rightarrow> store" where
  "Session_pushNonce st sid nonce =
     st\<lparr>sessions :=
          map (\<lambda>s. if s_id s = sid then s\<lparr>s_usedNonces := s_usedNonces s @ [nonce]\<rparr> else s)
            (sessions st)\<rparr>"

text \<open>\<^verbatim>\<open>AttendanceSession.findOne({ teacherId, active: true })\<close>.\<close>

definition findActiveSession :: "store \<Rightarrow> string \<Rightarrow> attendance_session option" where
  "findActiveSession st teacherId =
     find (\<lambda>s. s_teacherId s = teacherId \<and> s_active s) (sessions st)"

text \<open>
  \<^verbatim>\<open>AttendanceSession.findById(sessionId)\<close>, which first casts its argument to an
  \<^verbatim>\<open>ObjectId\<close>.
\<close>

definition Session_findById ::
  "runtime \<Rightarrow> store \<Rightarrow> json \<Rightarrow> thrown + attendance_session option" where
  "Session_findById L st sessionId =
     (case castObjectId L sessionId of
        None \<Rightarrow> Inl CastError
      | Some oid \<Rightarrow> Inr (find (\<lambda>s. s_id s = oid) (sessions st)))"

subsection \<open>\<^verbatim>\<open>POST /attendance/start\<close>\<close>

datatype start_response =
    NotAssigned \<comment> \<open>403 \<^verbatim>\<open>You are not assigned to teach this subject.\<close>\<close>
  | SessionStarted attendance_session \<comment> \<open>201 \<^verbatim>\<open>Attendance session started.\<close>\<close>
  | StartFailed \<comment> \<open>500 \<^verbatim>\<open>Failed to start attendance session.\<close>\<close>

text \<open>
  The handler awaits each query, so requests of other clients can write between its reads
  and its writes. \<open>start_read\<close> is the part that reads (lines 57 to 72): the teacher's
  assignment and the teacher's active session. \<open>start_write\<close> is the part that writes
  (lines 74 to 93), given what was read: it closes the session that was read as active
  and inserts the new document. \<open>oid\<close> is the \<^verbatim>\<open>_id\<close> that the driver generates for the
  new document.
\<close>

type_synonym pending_start = "attendance_session option \<times> attendance_session"

definition new_session :: "runtime \<Rightarrow> int \<Rightarrow> string \<Rightarrow> string \<Rightarrow> string \<Rightarrow> attendance_session" where
  "new_session L now_ms oid teacherId subjectCode =
     \<lparr> s_id = oid, s_subjectCode = subjectCode_setter L (toUpperCase L subjectCode),
       s_teacherId = teacherId, s_date = toISODate L now_ms, s_startTime = now_ms,
       s_endTime = None, s_active = True, s_usedNonces = [] \<rparr>"

definition start_read ::
  "runtime \<Rightarrow> store \<Rightarrow> int \<Rightarrow> string \<Rightarrow> string \<Rightarrow> string \<Rightarrow> start_response + pending_start" where
  "start_read L st now_ms oid teacherId subjectCode =
     (case find (\<lambda>t. t_userId t = teacherId) (teachers st) of
        None \<Rightarrow> Inl NotAssigned
      | Some teacher \<Rightarrow>
          if toUpperCase L subjectCode \<notin> set (t_subjectCodes teacher) then Inl NotAssigned
          else Inr (findActiveSession st teacherId,
                    new_session L now_ms oid teacherId subjectCode))"

definition start_write :: "store \<Rightarrow> int \<Rightarrow> pending_start \<Rightarrow> start_response \<times> store" where
  "start_write st now_ms w =
     (case w of (existing, session) \<Rightarrow>
        (let st1 = (case existing of
                      None \<Rightarrow> st
                    | Some existingSession \<Rightarrow> Session_close st (s_id existingSession) now_ms)
         in case Session_insert st1 session of
              Inl e \<Rightarrow> (StartFailed, st1)
            | Inr st2 \<Rightarrow> (SessionStarted session, st2)))"

text \<open>The handler when no other request writes between its reads and its writes.\<close>

definition start ::
  "runtime \<Rightarrow> store \<Rightarrow> int \<Rightarrow> string \<Rightarrow> string \<Rightarrow> string \<Rightarrow> start_response \<times> store" where
  "start L st now_ms oid teacherId subjectCode =
     (case start_read L st now_ms oid teacherId subjectCode of
        Inl r \<Rightarrow> (r, st)
      | Inr w \<Rightarrow> start_write st now_ms w)"

subsection \<open>\<^verbatim>\<open>POST /attendance/stop\<close>\<close>

datatype stop_response =
    NoActiveSession \<comment> \<open>404 \<^verbatim>\<open>No active attendance session found.\<close>\<close>
  | SessionStopped attendance_session nat \<comment> \<open>the session as saved, and \<^verbatim>\<open>attendanceCount\<close>\<close>

text \<open>
  \<open>stop_write\<close> is the part of the handler after its read (lines 137 to 158), given the
  session that was read as active.
\<close>

definition stop_write :: "store \<Rightarrow> int \<Rightarrow> attendance_session \<Rightarrow> stop_response \<times> store" where
  "stop_write st now_ms session =
     (let st1 = Session_close st (s_id session) now_ms;
          attendanceCount = length (filter (\<lambda>a. a_sessionId a = s_id session) (attendances st1))
      in (SessionStopped (session\<lparr>s_active := False, s_endTime := Some now_ms\<rparr>)
            attendanceCount, st1))"

definition stop :: "store \<Rightarrow> int \<Rightarrow> string \<Rightarrow> stop_response \<times> store" where
  "stop st now_ms teacherId =
     (case findActiveSession st teacherId of
        None \<Rightarrow> (NoActiveSession, st)
      | Some session \<Rightarrow> stop_write st now_ms session)"

subsection \<open>\<^verbatim>\<open>GET /attendance/qr/current\<close>\<close>

datatype qr_response =
    NoSessionToShow \<comment> \<open>404 \<^verbatim>\<open>No active attendance session. Please start a session first.\<close>\<close>
  | QrImage string string string int \<comment> \<open>\<^verbatim>\<open>image, sessionId, subjectCode, generatedAt\<close>\<close>
  | QrFailed \<comment> \<open>500 \<^verbatim>\<open>Failed to generate QR code.\<close>\<close>

text \<open>
  Lines 262 to 264, on the handler's own copy of the session document:
  \<^verbatim>\<open>if (session.usedNonces.length > 100) session.usedNonces = session.usedNonces.slice(-50)\<close>.
\<close>

definition trim_usedNonces :: "attendance_session \<Rightarrow> attendance_session" where
  "trim_usedNonces session =
     (if length (s_usedNonces session) > 100
      then session\<lparr>s_usedNonces := slice_from (- 50) (s_usedNonces session)\<rparr>
      else session)"

text \<open>
  The result of the handler: its response, the session document that it holds in memory
  when it responds (\<open>None\<close> when it loaded none or failed before line 262), and the store.
  The handler calls no \<^verbatim>\<open>save\<close>.
\<close>

record qr_result =
  qr_reply :: qr_response
  qr_document :: "attendance_session option"
  qr_minted :: "(string \<times> string) option" \<comment> \<open>\<^verbatim>\<open>{ qrData, nonce }\<close>\<close>
  qr_store :: store

definition qr_current :: "runtime \<Rightarrow> config \<Rightarrow> store \<Rightarrow> int \<Rightarrow> buffer \<Rightarrow> string \<Rightarrow> qr_result" where
  "qr_current L cfg st now_ms rnd teacherId =
     (case findActiveSession st teacherId of
        None \<Rightarrow> \<lparr> qr_reply = NoSessionToShow, qr_document = None, qr_minted = None,
                   qr_store = st \<rparr>
      | Some session \<Rightarrow>
          (let minted = generateQRPayload L cfg now_ms rnd (s_id session) teacherId
                          (s_subjectCode session)
           in case QRCode_toDataURL L (fst minted) of
                None \<Rightarrow> \<lparr> qr_reply = QrFailed, qr_document = Some session,
                           qr_minted = Some minted, qr_store = st \<rparr>
              | Some qrImage \<Rightarrow>
                  \<lparr> qr_reply = QrImage qrImage (s_id session) (s_subjectCode session) now_ms,
                    qr_document = Some (trim_usedNonces session),
                    qr_minted = Some minted,
                    qr_store = st \<rparr>))"

subsection \<open>\<^verbatim>\<open>POST /attendance/scan\<close>\<close>

datatype scan_response =
    ValidationError "qr_error option" \<comment> \<open>400 with \<^verbatim>\<open>validation.error\<close>\<close>
  | InvalidSession \<comment> \<open>400 \<^verbatim>\<open>Invalid attendance session.\<close>\<close>
  | SessionEnded \<comment> \<open>400 \<^verbatim>\<open>This attendance session has ended.\<close>\<close>
  | TeacherMismatch \<comment> \<open>400 \<^verbatim>\<open>QR code does not match the session teacher.\<close>\<close>
  | NonceReused \<comment> \<open>400 \<^verbatim>\<open>This QR code has already been used. Please scan the latest QR code.\<close>\<close>
  | StudentNotFound \<comment> \<open>404 \<^verbatim>\<open>Student not found.\<close>\<close>
  | SubjectNotFound \<comment> \<open>400 \<^verbatim>\<open>Subject not found.\<close>\<close>
  | DepartmentMismatch \<comment> \<open>403 \<^verbatim>\<open>Your department does not match this subject's department.\<close>\<close>
  | AlreadyMarkedToday \<comment> \<open>400 \<^verbatim>\<open>You have already marked attendance for this subject today.\<close>\<close>
  | AttendanceMarked attendance \<comment> \<open>201 \<^verbatim>\<open>Attendance marked successfully for ...\<close>\<close>
  | DuplicateKey \<comment> \<open>400 \<^verbatim>\<open>Attendance already marked for this subject today.\<close>\<close>
  | ScanFailed \<comment> \<open>500 \<^verbatim>\<open>Failed to mark attendance.\<close>\<close>

text \<open>The handler's \<^verbatim>\<open>catch\<close>: code 11000 is the duplicate key error.\<close>

definition scan_catch :: "thrown \<Rightarrow> scan_response" where
  "scan_catch e = (if error_code e = Some 11000 then DuplicateKey else ScanFailed)"

text \<open>
  \<^verbatim>\<open>session.usedNonces.includes(nonce)\<close> and the string that
  \<^verbatim>\<open>session.usedNonces.push(nonce)\<close> appends. For a nonce that is a string these are
  membership and the nonce itself; for any other value they belong to the storage
  library's array type, and \<open>None\<close> says that the \<^verbatim>\<open>push\<close> throws.
\<close>

definition nonce_used :: "runtime \<Rightarrow> string list \<Rightarrow> json \<Rightarrow> bool" where
  "nonce_used L usedNonces nonce =
     (case nonce of
        JStr n \<Rightarrow> n \<in> set usedNonces
      | other \<Rightarrow> array_includes L usedNonces other)"

definition nonce_to_push :: "runtime \<Rightarrow> json \<Rightarrow> string option" where
  "nonce_to_push L nonce = (case nonce of JStr n \<Rightarrow> Some n | other \<Rightarrow> castString L other)"

text \<open>
  A write that the checks have prepared: the attendance document, the \<^verbatim>\<open>_id\<close> of the
  session and the string that the \<^verbatim>\<open>push\<close> will append.
\<close>

type_synonym pending_write = "attendance \<times> string \<times> string option"

text \<open>
  Steps 4 to 7 of the handler, which only read. \<open>studentUserId\<close> is \<^verbatim>\<open>req.user.id\<close>, the
  canonical id that the identity layer signed.
\<close>

definition scan_checks ::
  "runtime \<Rightarrow> store \<Rightarrow> int \<Rightarrow> string \<Rightarrow> qr_payload \<Rightarrow> scan_response + pending_write" where
  "scan_checks L st now_ms studentUserId pl =
     (case Session_findById L st (p_sessionId pl) of
        Inl e \<Rightarrow> Inl (scan_catch e)
      | Inr None \<Rightarrow> Inl InvalidSession
      | Inr (Some session) \<Rightarrow>
          if \<not> s_active session then Inl SessionEnded
          else if JStr (s_teacherId session) \<noteq> p_teacherId pl then Inl TeacherMismatch
          else if nonce_used L (s_usedNonces session) (p_nonce pl) then Inl NonceReused
          else (case find (\<lambda>u. u_id u = studentUserId) (users st) of
            None \<Rightarrow> Inl StudentNotFound
          | Some studentUser \<Rightarrow>
              (case p_subjectCode pl of
                 JStr subjectCode \<Rightarrow>
                   (case find (\<lambda>s. sub_subjectCode s
                                     = subjectCode_setter L (toUpperCase L subjectCode))
                           (subjects st) of
                      None \<Rightarrow> Inl SubjectNotFound
                    | Some subject \<Rightarrow>
                        if toLowerCase L (u_department studentUser)
                             \<noteq> toLowerCase L (sub_department subject)
                        then Inl DepartmentMismatch
                        else
                          (let today = toISODate L now_ms
                           in case find (\<lambda>a. a_studentId a = studentUserId
                                              \<and> a_subjectCode a
                                                  = subjectCode_setter L (toUpperCase L subjectCode)
                                              \<and> a_date a = today) (attendances st) of
                                Some existingAttendance \<Rightarrow> Inl AlreadyMarkedToday
                              | None \<Rightarrow>
                                  Inr (\<lparr> a_studentId = studentUserId,
                                         a_subjectCode =
                                           subjectCode_setter L (toUpperCase L subjectCode),
                                         a_sessionId = s_id session,
                                         a_date = today,
                                         a_timestamp = now_ms \<rparr>,
                                       s_id session, nonce_to_push L (p_nonce pl))))
               | other \<Rightarrow> Inl (scan_catch TypeError))))"

text \<open>
  Step 8, which writes: \<^verbatim>\<open>attendance.save()\<close>, then \<^verbatim>\<open>usedNonces.push(nonce)\<close> and
  \<^verbatim>\<open>session.save()\<close>. The store is the one at the moment of the write.
\<close>

definition scan_record :: "store \<Rightarrow> pending_write \<Rightarrow> scan_response \<times> store" where
  "scan_record st w =
     (case w of (a, sid, nonce) \<Rightarrow>
        (case Attendance_insert st a of
           Inl e \<Rightarrow> (scan_catch e, st)
         | Inr st1 \<Rightarrow>
             (case nonce of
                None \<Rightarrow> (scan_catch CastError, st1)
              | Some n \<Rightarrow> (AttendanceMarked a, Session_pushNonce st1 sid n))))"

text \<open>The handler when no other request writes between its reads and its write.\<close>

definition scan ::
  "runtime \<Rightarrow> config \<Rightarrow> store \<Rightarrow> int \<Rightarrow> string \<Rightarrow> string \<Rightarrow> scan_response \<times> store" where
  "scan L cfg st now_ms studentUserId qrPayload =
     (let validation = validateQRPayload L cfg now_ms qrPayload
      in if \<not> valid validation then (ValidationError (error validation), st)
         else (case payload validation of
                 None \<Rightarrow> (scan_catch TypeError, st)
               | Some pl \<Rightarrow>
                   (case scan_checks L st now_ms studentUserId pl of
                      Inl r \<Rightarrow> (r, st)
                    | Inr w \<Rightarrow> scan_record st w)))"

subsection \<open>Runs\<close>

text \<open>
  A run is a sequence of events. \<open>Start\<close>, \<open>Stop\<close>, \<open>Mint\<close> and \<open>Scan\<close> are a handler run
  from its first read to its last write with no other write in between, with the clock
  value, the generated id or random bytes and the request that it received.
  \<open>StartWrite\<close>, \<open>StopWrite\<close> and \<open>ScanWrite\<close> are the writes of a handler whose reads
  ran against an earlier store, other requests having written in between; what was read
  is an argument. \<open>Directory\<close> stands for the requests to \<^verbatim>\<open>routes/auth.js\<close> and
  \<^verbatim>\<open>routes/profile.js\<close>, which write users, subjects and teachers only.
\<close>

datatype event =
    Start int string string string \<comment> \<open>\<open>now_ms\<close>, \<open>oid\<close>, \<open>teacherId\<close>, \<open>subjectCode\<close>\<close>
  | Stop int string \<comment> \<open>\<open>now_ms\<close>, \<open>teacherId\<close>\<close>
  | Mint int buffer string \<comment> \<open>\<open>now_ms\<close>, the random bytes, \<open>teacherId\<close>\<close>
  | Scan int string string \<comment> \<open>\<open>now_ms\<close>, \<open>studentUserId\<close>, \<open>qrPayload\<close>\<close>
  | StartWrite int pending_start
  | StopWrite int attendance_session
  | ScanWrite pending_write
  | Directory "user list" "subject list" "teacher list"

fun step :: "runtime \<Rightarrow> config \<Rightarrow> store \<Rightarrow> event \<Rightarrow> store" where
  "step L cfg st (Start now_ms oid teacherId subjectCode) =
     snd (start L st now_ms oid teacherId subjectCode)"
| "step L cfg st (Stop now_ms teacherId) = snd (stop st now_ms teacherId)"
| "step L cfg st (Mint now_ms rnd teacherId) = qr_store (qr_current L cfg st now_ms rnd teacherId)"
| "step L cfg st (Scan now_ms studentUserId qrPayload) =
     snd (scan L cfg st now_ms studentUserId qrPayload)"
| "step L cfg st (StartWrite now_ms w) = snd (start_write st now_ms w)"
| "step L cfg st (StopWrite now_ms session) = snd (stop_write st now_ms session)"
| "step L cfg st (ScanWrite w) = snd (scan_record st w)"
| "step L cfg st (Directory us subs ts) = st\<lparr>users := us, subjects := subs, teachers := ts\<rparr>"


definition exec :: "runtime \<Rightarrow> config \<Rightarrow> store \<Rightarrow> event list \<Rightarrow> store" where
  "exec L cfg st evs = foldl (step L cfg) st evs"

subsection \<open>State predicates\<close>

text \<open>No two attendance documents share the key of the unique index.\<close>

definition attendance_unique :: "store \<Rightarrow> bool" where
  "attendance_unique st = distinct (map attendance_key (attendances st))"



text \<open>The stored nonce ledger of the session with a given \<^verbatim>\<open>_id\<close>.\<close>

definition ledger :: "store \<Rightarrow> string \<Rightarrow> string list" where
  "ledger st sid =
     (case find (\<lambda>s. s_id s = sid) (sessions st) of None \<Rightarrow> [] | Some s \<Rightarrow> s_usedNonces s)"

text \<open>The stored session with a given \<^verbatim>\<open>_id\<close>.\<close>

definition stored_session :: "store \<Rightarrow> string \<Rightarrow> attendance_session option" where
  "stored_session st sid = find (\<lambda>s. s_id s = sid) (sessions st)"



text \<open>
  The results of the checks of a scan that lie after the nonce test: the failures of the
  student, subject, department and duplicate checks, and success.
\<close>

definition after_nonce_test :: "scan_response + pending_write \<Rightarrow> bool" where
  "after_nonce_test res =
     (case res of
        Inl r \<Rightarrow> r \<in> {StudentNotFound, SubjectNotFound, DepartmentMismatch, AlreadyMarkedToday}
      | Inr w \<Rightarrow> True)"

subsection \<open>A runtime to compute with\<close>

text \<open>
  An instance of \<open>runtime\<close> on which the operations can be evaluated: the transport
  encodings keep the bytes as they are, JSON is written without white space and read back
  by a recursive-descent parser, the keyed digest is a 32-byte checksum, the calendar
  date is computed from the day number, and strings are ASCII.
\<close>

text \<open>Case mapping of the ASCII letters and trimming of the ASCII white space.\<close>

definition upper_char :: "char \<Rightarrow> char" where
  "upper_char c =
     (let k = (of_char c :: nat) in if 97 \<le> k \<and> k \<le> 122 then char_of (k - 32) else c)"

definition lower_char :: "char \<Rightarrow> char" where
  "lower_char c =
     (let k = (of_char c :: nat) in if 65 \<le> k \<and> k \<le> 90 then char_of (k + 32) else c)"

definition ascii_upper :: "string \<Rightarrow> string" where
  "ascii_upper s = map upper_char s"

definition ascii_lower :: "string \<Rightarrow> string" where
  "ascii_lower s = map lower_char s"

definition is_space :: "char \<Rightarrow> bool" where
  "is_space c = ((of_char c :: nat) \<in> {9, 10, 11, 12, 13, 32})"

definition ascii_trim :: "string \<Rightarrow> string" where
  "ascii_trim s = rev (dropWhile is_space (rev (dropWhile is_space s)))"

definition digit_char :: "int \<Rightarrow> char" where
  "digit_char d = ''0123456789'' ! nat d"

function show_pos :: "int \<Rightarrow> string" where
  "show_pos i =
     (if i < 10 then [digit_char i] else show_pos (i div 10) @ [digit_char (i mod 10)])"
  by pat_completeness auto
termination
  by (relation "measure nat") auto

definition show_int :: "int \<Rightarrow> string" where
  "show_int i = (if i < 0 then CHR ''-'' # show_pos (- i) else show_pos i)"

fun escape :: "string \<Rightarrow> string" where
  "escape [] = []"
| "escape (c # cs) =
     (if c = CHR 0x22 \<or> c = CHR 0x5C then CHR 0x5C # c # escape cs else c # escape cs)"

definition quote :: "string \<Rightarrow> string" where
  "quote s = CHR 0x22 # escape s @ [CHR 0x22]"

fun join :: "string \<Rightarrow> string list \<Rightarrow> string" where
  "join sep [] = []"
| "join sep [x] = x"
| "join sep (x # y # ys) = x @ sep @ join sep (y # ys)"

fun stringify :: "json \<Rightarrow> string" where
  "stringify JNull = ''null''"
| "stringify (JBool b) = (if b then ''true'' else ''false'')"
| "stringify (JNum n) = show_int n"
| "stringify (JStr s) = quote s"
| "stringify (JArr xs) = ''['' @ join '','' (map stringify xs) @ '']''"
| "stringify (JObj kvs) =
     ''{'' @ join '','' (map (\<lambda>kv. quote (fst kv) @ '':'' @ stringify (snd kv)) kvs) @ ''}''"

fun string_body :: "string \<Rightarrow> (string \<times> string) option" where
  "string_body [] = None"
| "string_body (c # cs) =
     (if c = CHR 0x22 then Some ([], cs)
      else if c = CHR 0x5C then
        (case cs of
           [] \<Rightarrow> None
         | e # rest \<Rightarrow>
             if e = CHR 0x22 \<or> e = CHR 0x5C
             then map_option (\<lambda>(s, r). (e # s, r)) (string_body rest)
             else None)
      else map_option (\<lambda>(s, r). (c # s, r)) (string_body cs))"

definition is_digit :: "char \<Rightarrow> bool" where
  "is_digit c = (48 \<le> (of_char c :: nat) \<and> (of_char c :: nat) \<le> 57)"

fun digits :: "int \<Rightarrow> string \<Rightarrow> int \<times> string" where
  "digits acc [] = (acc, [])"
| "digits acc (c # cs) =
     (if is_digit c then digits (10 * acc + (of_char c - 48)) cs else (acc, c # cs))"

text \<open>The first argument bounds the nesting depth and the number of members read.\<close>

fun value_p :: "nat \<Rightarrow> string \<Rightarrow> (json \<times> string) option"
  and members_p :: "nat \<Rightarrow> string \<Rightarrow> ((string \<times> json) list \<times> string) option"
  and elements_p :: "nat \<Rightarrow> string \<Rightarrow> (json list \<times> string) option" where
  "value_p 0 s = None"
| "value_p (Suc f) [] = None"
| "value_p (Suc f) (c # cs) =
     (if c = CHR 0x22 then map_option (\<lambda>(s, r). (JStr s, r)) (string_body cs)
      else if c = CHR ''{'' then
        (case cs of
           [] \<Rightarrow> None
         | d # ds \<Rightarrow> if d = CHR ''}'' then Some (JObj [], ds)
                     else map_option (\<lambda>(kvs, r). (JObj kvs, r)) (members_p f cs))
      else if c = CHR ''['' then
        (case cs of
           [] \<Rightarrow> None
         | d # ds \<Rightarrow> if d = CHR '']'' then Some (JArr [], ds)
                     else map_option (\<lambda>(xs, r). (JArr xs, r)) (elements_p f cs))
      else if c = CHR ''-'' then
        (case cs of
           [] \<Rightarrow> None
         | d # ds \<Rightarrow> if is_digit d then (case digits 0 cs of (n, r) \<Rightarrow> Some (JNum (- n), r))
                     else None)
      else if is_digit c then (case digits 0 (c # cs) of (n, r) \<Rightarrow> Some (JNum n, r))
      else if take 4 (c # cs) = ''null'' then Some (JNull, drop 4 (c # cs))
      else if take 4 (c # cs) = ''true'' then Some (JBool True, drop 4 (c # cs))
      else if take 5 (c # cs) = ''false'' then Some (JBool False, drop 5 (c # cs))
      else None)"
| "members_p 0 s = None"
| "members_p (Suc f) s =
     (case s of
        [] \<Rightarrow> None
      | q # s1 \<Rightarrow>
          if q \<noteq> CHR 0x22 then None
          else (case string_body s1 of
            None \<Rightarrow> None
          | Some (k, s2) \<Rightarrow>
              (case s2 of
                 [] \<Rightarrow> None
               | colon # s3 \<Rightarrow>
                   if colon \<noteq> CHR '':'' then None
                   else (case value_p f s3 of
                     None \<Rightarrow> None
                   | Some (v, s4) \<Rightarrow>
                       (case s4 of
                          [] \<Rightarrow> None
                        | sep # s5 \<Rightarrow>
                            if sep = CHR ''}'' then Some ([(k, v)], s5)
                            else if sep = CHR '','' then
                              map_option (\<lambda>(kvs, r). ((k, v) # kvs, r)) (members_p f s5)
                            else None)))))"
| "elements_p 0 s = None"
| "elements_p (Suc f) s =
     (case value_p f s of
        None \<Rightarrow> None
      | Some (v, s1) \<Rightarrow>
          (case s1 of
             [] \<Rightarrow> None
           | sep # s2 \<Rightarrow>
               if sep = CHR '']'' then Some ([v], s2)
               else if sep = CHR '','' then map_option (\<lambda>(xs, r). (v # xs, r)) (elements_p f s2)
               else None))"

definition parse :: "string \<Rightarrow> json option" where
  "parse s = (case value_p (Suc (length s)) s of Some (v, []) \<Rightarrow> Some v | other \<Rightarrow> None)"

definition checksum_digest :: "string \<Rightarrow> string \<Rightarrow> buffer" where
  "checksum_digest key msg =
     (let c = sum_list (map (\<lambda>x. (of_char x :: int)) (key @ msg))
      in map (\<lambda>i. char_of (c + 7 * int i)) [0..<32])"

text \<open>The calendar date of a day number (days since 1970-01-01), years 0 to 9999.\<close>

definition civil_from_days :: "int \<Rightarrow> int \<times> int \<times> int" where
  "civil_from_days days =
     (let z = days + 719468;
          era = z div 146097;
          doe = z - era * 146097;
          yoe = (doe - doe div 1460 + doe div 36524 - doe div 146096) div 365;
          doy = doe - (365 * yoe + yoe div 4 - yoe div 100);
          mp = (5 * doy + 2) div 153;
          d = doy - (153 * mp + 2) div 5 + 1;
          m = (if mp < 10 then mp + 3 else mp - 9);
          y = yoe + era * 400 + (if m \<le> 2 then 1 else 0)
      in (y, m, d))"

definition pad_left :: "nat \<Rightarrow> string \<Rightarrow> string" where
  "pad_left n s = replicate (n - length s) CHR ''0'' @ s"

definition iso_date :: "int \<Rightarrow> string" where
  "iso_date ms =
     (case civil_from_days (ms div 86400000) of
        (y, m, d) \<Rightarrow>
          pad_left 4 (show_int y) @ ''-'' @ pad_left 2 (show_int m) @ ''-''
            @ pad_left 2 (show_int d))"

definition is_ObjectId_text :: "string \<Rightarrow> bool" where
  "is_ObjectId_text s = (length s = 24 \<and> list_all (\<lambda>c. hex_value c \<noteq> None) s)"

definition sample_runtime :: runtime where
  "sample_runtime =
     \<lparr> base64_decode = (\<lambda>s. s),
       base64_encode = (\<lambda>b. b),
       inflateSync = (\<lambda>b. if b = [] then None else Some b),
       deflateSync = (\<lambda>b. b),
       utf8_encode = (\<lambda>s. s),
       utf8_decode = (\<lambda>b. b),
       JSON_parse = parse,
       JSON_stringify = stringify,
       hmac_sha256 = checksum_digest,
       Buffer_from_object = (\<lambda>x. None),
       ToNumber = (\<lambda>x. None),
       QRCode_toDataURL = (\<lambda>d. Some (''data:image/png;base64,'' @ d)),
       toISODate = iso_date,
       castObjectId =
         (\<lambda>x. case x of
                 JStr s \<Rightarrow> if is_ObjectId_text s then Some (ascii_lower s) else None
               | other \<Rightarrow> None),
       castString =
         (\<lambda>x. case x of
                 JNum i \<Rightarrow> Some (show_int i)
               | JBool b \<Rightarrow> Some (if b then ''true'' else ''false'')
               | other \<Rightarrow> None),
       array_includes = (\<lambda>xs x. False),
       toUpperCase = ascii_upper,
       toLowerCase = ascii_lower,
       trim = ascii_trim \<rparr>"

definition sample_config :: config where
  "sample_config = load_config None None"

subsection \<open>Sample data\<close>

definition sample_random :: buffer where
  "sample_random = map char_of [0..<16::nat]"

definition sample_token :: string where
  "sample_token =
     fst (generateQRPayload sample_runtime sample_config 1700000000000 sample_random
            ''64b000000000000000000051'' ''64b000000000000000000001'' ''CH401'')"

definition sample_payload :: qr_payload where
  "sample_payload =
     \<lparr> p_version = JNum 1, p_sessionId = JStr ''64b000000000000000000051'',
       p_teacherId = JStr ''64b000000000000000000001'', p_subjectCode = JStr ''CH401'',
       p_timestamp = JNum 1700000000, p_nonce = JStr ''000102030405060708090a0b0c0d0e0f'' \<rparr>"

definition sample_store :: store where
  "sample_store =
     \<lparr> sessions = [],
       attendances = [],
       users = [\<lparr>u_id = ''64b0000000000000000000a1'', u_department = ''chemical engineering''\<rparr>,
                \<lparr>u_id = ''64b0000000000000000000b2'', u_department = ''Physics''\<rparr>],
       subjects = [\<lparr>sub_subjectCode = ''CH401'', sub_department = ''Chemical Engineering''\<rparr>],
       teachers = [\<lparr>t_userId = ''64b000000000000000000001'', t_subjectCodes = [''CH401'']\<rparr>] \<rparr>"

definition sample_session :: attendance_session where
  "sample_session =
     \<lparr> s_id = ''64b000000000000000000051'', s_subjectCode = ''CH401'',
       s_teacherId = ''64b000000000000000000001'', s_date = ''2023-11-14'',
       s_startTime = 1699999990000, s_endTime = None, s_active = True, s_usedNonces = [] \<rparr>"

definition sample_open :: store where
  "sample_open = sample_store\<lparr>sessions := [sample_session]\<rparr>"

definition sample_closed :: store where
  "sample_closed =
     sample_store\<lparr>sessions := [sample_session\<lparr>s_active := False, s_endTime := Some 1700000001000\<rparr>]\<rparr>"

definition sample_ledger :: "string list" where
  "sample_ledger =
     ''000102030405060708090a0b0c0d0e0f''
       # [replicate 30 CHR ''f'' @ [a, b]. a \<leftarrow> ''0123456'', b \<leftarrow> ''0123456789abcdef'']"

definition sample_full :: store where
  "sample_full =
     sample_store
       \<lparr>sessions := [sample_session\<lparr>s_usedNonces := sample_ledger\<rparr>],
        attendances :=
          map (\<lambda>n. \<lparr> a_studentId = drop 8 n, a_subjectCode = ''CH401'',
                      a_sessionId = ''64b000000000000000000051'', a_date = ''2023-11-14'',
                      a_timestamp = 1700000002000 \<rparr>) sample_ledger\<rparr>"

definition sample_random2 :: buffer where
  "sample_random2 = replicate 16 (CHR 0xAB)"

definition sample_attendance :: attendance where
  "sample_attendance =
     \<lparr> a_studentId = ''64b0000000000000000000a1'', a_subjectCode = ''CH401'',
       a_sessionId = ''64b000000000000000000051'', a_date = ''2023-11-14'',
       a_timestamp = 1700000002000 \<rparr>"

definition sample_marked :: store where
  "sample_marked =
     sample_store\<lparr>sessions := [sample_session\<lparr>s_usedNonces := [''000102030405060708090a0b0c0d0e0f'']\<rparr>],
                  attendances := [sample_attendance]\<rparr>"





section \<open>Properties\<close>

subsection \<open>The validator\<close>







lemma check_freshness_cases:
  "check_freshness L cfg now_ms pl =
     (case token_age L (now_ms div 1000) (p_timestamp pl) of
        None \<Rightarrow> Inr pl
      | Some age \<Rightarrow> if age < 0 then Inl FutureTimestamp
                    else if age > QR_TOKEN_VALIDITY cfg then Inl Expired else Inr pl)"
  by (simp add: check_freshness_def)

text \<open>
  Claim C3. Freshness is decided by \<open>age = now - issuedAt\<close> in whole seconds. For a token
  that decodes, carries a matching signature and has its six fields, with a numeric
  timestamp, and for a validity window that is not negative: before \<open>issuedAt\<close> the result
  is the future-timestamp error; from \<open>issuedAt\<close> to \<open>issuedAt + QR_TOKEN_VALIDITY\<close>
  inclusive the token is valid, so not expired; from \<open>issuedAt + QR_TOKEN_VALIDITY + 1\<close> on
  the result is the expiry error.
\<close>

theorem freshness_window:
  assumes "decode_signed L qrData = Inr signedData"
    and "verify_signature L cfg signedData = Inr payloadStr"
    and "parse_payload L payloadStr = Inr pl"
    and "p_timestamp pl = JNum issuedAt"
    and "0 \<le> QR_TOKEN_VALIDITY cfg"
  shows "(now_ms div 1000 < issuedAt
            \<longrightarrow> validateQRPayload L cfg now_ms qrData
                  = \<lparr>valid = False, payload = None, error = Some FutureTimestamp\<rparr>)
       \<and> (issuedAt \<le> now_ms div 1000 \<and> now_ms div 1000 \<le> issuedAt + QR_TOKEN_VALIDITY cfg
            \<longrightarrow> validateQRPayload L cfg now_ms qrData
                  = \<lparr>valid = True, payload = Some pl, error = None\<rparr>)
       \<and> (issuedAt + QR_TOKEN_VALIDITY cfg + 1 \<le> now_ms div 1000
            \<longrightarrow> validateQRPayload L cfg now_ms qrData
                  = \<lparr>valid = False, payload = None, error = Some Expired\<rparr>)"
proof -
  have v: "validateQRPayload L cfg now_ms qrData =
             (case check_freshness L cfg now_ms pl of
                Inl e \<Rightarrow> invalid e
              | Inr ok \<Rightarrow> \<lparr>valid = True, payload = Some ok, error = None\<rparr>)"
    using assms(1-3) by (simp add: validateQRPayload_def)
  have a: "token_age L (now_ms div 1000) (p_timestamp pl) = Some (now_ms div 1000 - issuedAt)"
    using assms(4) by (simp add: token_age_def)
  show ?thesis
    using assms(5) by (auto simp: v a check_freshness_cases invalid_def)
qed

lemma sample_token_decodes:
  "decode_signed sample_runtime sample_token =
     Inr (signed_object
       ''{\"v\":1,\"sid\":\"64b000000000000000000051\",\"tid\":\"64b000000000000000000001\",\"sub\":\"CH401\",\"ts\":1700000000,\"n\":\"000102030405060708090a0b0c0d0e0f\"}''
       ''8a91989fa6adb4bbc2c9d0d7dee5ecf3fa01080f161d242b323940474e555c63'')"
  by code_simp

lemma sample_token_verifies:
  "verify_signature sample_runtime sample_config (signed_object
       ''{\"v\":1,\"sid\":\"64b000000000000000000051\",\"tid\":\"64b000000000000000000001\",\"sub\":\"CH401\",\"ts\":1700000000,\"n\":\"000102030405060708090a0b0c0d0e0f\"}''
       ''8a91989fa6adb4bbc2c9d0d7dee5ecf3fa01080f161d242b323940474e555c63'')
   = Inr ''{\"v\":1,\"sid\":\"64b000000000000000000051\",\"tid\":\"64b000000000000000000001\",\"sub\":\"CH401\",\"ts\":1700000000,\"n\":\"000102030405060708090a0b0c0d0e0f\"}''"
  by code_simp

lemma sample_token_parses:
  "parse_payload sample_runtime
     ''{\"v\":1,\"sid\":\"64b000000000000000000051\",\"tid\":\"64b000000000000000000001\",\"sub\":\"CH401\",\"ts\":1700000000,\"n\":\"000102030405060708090a0b0c0d0e0f\"}''
   = Inr sample_payload"
  by code_simp

lemma sample_validity: "QR_TOKEN_VALIDITY sample_config = 3"
  by (simp add: sample_config_def load_config_def)

theorem freshness_window_witness:
  "decode_signed sample_runtime sample_token \<noteq> Inl DecompressionFailed
   \<and> p_timestamp sample_payload = JNum 1700000000
   \<and> 0 \<le> QR_TOKEN_VALIDITY sample_config
   \<and> validateQRPayload sample_runtime sample_config 1699999999999 sample_token
       = \<lparr>valid = False, payload = None, error = Some FutureTimestamp\<rparr>
   \<and> validateQRPayload sample_runtime sample_config 1700000003999 sample_token
       = \<lparr>valid = True, payload = Some sample_payload, error = None\<rparr>
   \<and> validateQRPayload sample_runtime sample_config 1700000004000 sample_token
       = \<lparr>valid = False, payload = None, error = Some Expired\<rparr>"
proof -
  have ts: "p_timestamp sample_payload = JNum 1700000000"
    by (simp add: sample_payload_def)
  have v: "0 \<le> QR_TOKEN_VALIDITY sample_config"
    by (simp add: sample_validity)
  note w = freshness_window [OF sample_token_decodes sample_token_verifies
      sample_token_parses ts v]
  show ?thesis
    using w [of 1699999999999] w [of 1700000003999] w [of 1700000004000]
    by (simp add: sample_token_decodes ts sample_validity)
qed

lemma hex_encode_empty: "hex_encode bs = [] \<longleftrightarrow> bs = []"
  by (cases bs) simp_all

subsection \<open>Minting and validating\<close>

lemma generateQRPayload_nonce:
  "snd (generateQRPayload L cfg now_ms rnd sessionId teacherId subjectCode) = hex_encode rnd"
  by (simp add: generateQRPayload_def Let_def)

text \<open>
  Claim C6. Round trip: the credential string that \<^verbatim>\<open>generateQRPayload\<close> mints for a
  session id, a teacher id and a subject code that are not empty, at a time of at least
  one second after the epoch, validates under the same secret at every time within the
  freshness window, and the payload returned has exactly the minted fields. The
  hypotheses on the runtime say that the transport encodings and JSON read back what they
  wrote for this token, and that the payload text and the digest are not empty.
\<close>

theorem mint_then_validate:
  fixes L :: runtime and cfg :: config and rnd :: buffer and mint_ms now_ms :: int
    and sessionId teacherId subjectCode :: string
    and nonce payloadStr signature signedData :: string and issuedAt :: int
  defines "nonce \<equiv> hex_encode rnd"
    and "issuedAt \<equiv> mint_ms div 1000"
  defines "payloadStr \<equiv>
      JSON_stringify L (payload_object sessionId teacherId subjectCode issuedAt nonce)"
  defines "signature \<equiv> hex_encode (hmac_sha256 L (QR_SECRET cfg) payloadStr)"
  defines "signedData \<equiv> JSON_stringify L (signed_object payloadStr signature)"
  assumes transport:
      "inflateSync L (base64_decode L (base64_encode L (deflateSync L (utf8_encode L signedData))))
         = Some (utf8_encode L signedData)"
      "utf8_decode L (utf8_encode L signedData) = signedData"
    and json:
      "JSON_parse L signedData = Some (signed_object payloadStr signature)"
      "JSON_parse L payloadStr
         = Some (payload_object sessionId teacherId subjectCode issuedAt nonce)"
      "payloadStr \<noteq> []"
    and digest: "hmac_sha256 L (QR_SECRET cfg) payloadStr \<noteq> []"
    and fields: "sessionId \<noteq> []" "teacherId \<noteq> []" "subjectCode \<noteq> []" "rnd \<noteq> []"
      "issuedAt \<noteq> 0"
    and fresh: "issuedAt \<le> now_ms div 1000" "now_ms div 1000 \<le> issuedAt + QR_TOKEN_VALIDITY cfg"
  shows "validateQRPayload L cfg now_ms
           (fst (generateQRPayload L cfg mint_ms rnd sessionId teacherId subjectCode))
         = \<lparr> valid = True,
             payload = Some \<lparr> p_version = JNum 1, p_sessionId = JStr sessionId,
                               p_teacherId = JStr teacherId, p_subjectCode = JStr subjectCode,
                               p_timestamp = JNum (mint_ms div 1000),
                               p_nonce = JStr (snd (generateQRPayload L cfg mint_ms rnd
                                                      sessionId teacherId subjectCode)) \<rparr>,
             error = None \<rparr>"
proof -
  let ?pl = "\<lparr> p_version = JNum 1, p_sessionId = JStr sessionId,
                p_teacherId = JStr teacherId, p_subjectCode = JStr subjectCode,
                p_timestamp = JNum issuedAt, p_nonce = JStr nonce \<rparr>"
  have g: "generateQRPayload L cfg mint_ms rnd sessionId teacherId subjectCode
             = (base64_encode L (deflateSync L (utf8_encode L signedData)), nonce)"
    by (simp add: generateQRPayload_def Let_def nonce_def issuedAt_def payloadStr_def
        signature_def signedData_def)
  have d: "decode_signed L (base64_encode L (deflateSync L (utf8_encode L signedData)))
             = Inr (signed_object payloadStr signature)"
    using transport json(1) by (simp add: decode_signed_def)
  have sig: "signature \<noteq> []"
    using digest by (simp add: signature_def hex_encode_empty)
  have s: "verify_signature L cfg (signed_object payloadStr signature) = Inr payloadStr"
    using json(3) sig
    by (simp add: verify_signature_def signed_object_def timingSafeEqual_def signature_def)
  have n: "nonce \<noteq> []"
    using fields(4) by (simp add: nonce_def hex_encode_empty)
  have r: "required_fields
             [(''v'', JNum 1), (''sid'', JStr sessionId), (''tid'', JStr teacherId),
              (''sub'', JStr subjectCode), (''ts'', JNum issuedAt), (''n'', JStr nonce)]
           = Some ?pl"
    using fields n by (simp add: required_fields_def)
  have p: "parse_payload L payloadStr = Inr ?pl"
    using json(2) r by (simp add: parse_payload_def payload_object_def)
  have f: "check_freshness L cfg now_ms ?pl = Inr ?pl"
    using fresh by (simp add: check_freshness_def token_age_def)
  show ?thesis
    using f by (simp add: g validateQRPayload_def d s p issuedAt_def)
qed

theorem mint_then_validate_witness:
  "1700000000000 div 1000 \<le> (1700000002000 :: int) div 1000
   \<and> (1700000002000 :: int) div 1000 \<le> 1700000000000 div 1000 + QR_TOKEN_VALIDITY sample_config
   \<and> validateQRPayload sample_runtime sample_config 1700000002000 sample_token
       = \<lparr>valid = True, payload = Some sample_payload, error = None\<rparr>"
proof -
  let ?p = "''{\"v\":1,\"sid\":\"64b000000000000000000051\",\"tid\":\"64b000000000000000000001\",\"sub\":\"CH401\",\"ts\":1700000000,\"n\":\"000102030405060708090a0b0c0d0e0f\"}''"
  let ?s = "''8a91989fa6adb4bbc2c9d0d7dee5ecf3fa01080f161d242b323940474e555c63''"
  have n: "hex_encode sample_random = ''000102030405060708090a0b0c0d0e0f''"
    by code_simp
  have p: "JSON_stringify sample_runtime
             (payload_object ''64b000000000000000000051'' ''64b000000000000000000001'' ''CH401''
                1700000000 ''000102030405060708090a0b0c0d0e0f'') = ?p"
    by code_simp
  have s: "hex_encode (hmac_sha256 sample_runtime (QR_SECRET sample_config) ?p) = ?s"
    by code_simp
  have e: "JSON_parse sample_runtime (JSON_stringify sample_runtime (signed_object ?p ?s))
             = Some (signed_object ?p ?s)"
    by code_simp
  have q: "JSON_parse sample_runtime ?p
             = Some (payload_object ''64b000000000000000000051'' ''64b000000000000000000001''
                 ''CH401'' 1700000000 ''000102030405060708090a0b0c0d0e0f'')"
    by code_simp
  have t: "inflateSync sample_runtime (JSON_stringify sample_runtime (signed_object ?p ?s))
             = Some (JSON_stringify sample_runtime (signed_object ?p ?s))"
    by code_simp
  have i: "base64_decode sample_runtime = (\<lambda>s. s)" "base64_encode sample_runtime = (\<lambda>s. s)"
    "deflateSync sample_runtime = (\<lambda>s. s)" "utf8_encode sample_runtime = (\<lambda>s. s)"
    "utf8_decode sample_runtime = (\<lambda>s. s)"
    by (simp_all add: sample_runtime_def)
  have r: "sample_random \<noteq> []"
    by code_simp
  have d: "hmac_sha256 sample_runtime (QR_SECRET sample_config) ?p \<noteq> []"
    by code_simp
  show ?thesis
    using mint_then_validate [where L = sample_runtime and cfg = sample_config
        and rnd = sample_random and mint_ms = 1700000000000
        and sessionId = "''64b000000000000000000051''"
        and teacherId = "''64b000000000000000000001''" and subjectCode = "''CH401''"
        and now_ms = 1700000002000]
    by (simp add: n p s e q t i r d sample_validity sample_token_def sample_payload_def
        generateQRPayload_nonce)
qed

lemma sample_start:
  "start sample_runtime sample_store 1699999990000 ''64b000000000000000000051''
     ''64b000000000000000000001'' ''ch401'' = (SessionStarted sample_session, sample_open)"
  by code_simp

subsection \<open>Redemption\<close>

lemma validate_after_stages:
  assumes "decode_signed L qrData = Inr signedData"
    and "verify_signature L cfg signedData = Inr payloadStr"
    and "parse_payload L payloadStr = Inr pl"
  shows "validateQRPayload L cfg now_ms qrData =
           (case check_freshness L cfg now_ms pl of
              Inl e \<Rightarrow> invalid e
            | Inr ok \<Rightarrow> \<lparr>valid = True, payload = Some ok, error = None\<rparr>)"
  using assms by (simp add: validateQRPayload_def)

lemma sample_token_valid:
  assumes "1700000000 \<le> now_ms div 1000" and "now_ms div 1000 \<le> 1700000003"
  shows "validateQRPayload sample_runtime sample_config now_ms sample_token
           = \<lparr>valid = True, payload = Some sample_payload, error = None\<rparr>"
proof -
  have "check_freshness sample_runtime sample_config now_ms sample_payload = Inr sample_payload"
    using assms
    by (simp add: check_freshness_def token_age_def sample_payload_def sample_validity)
  then show ?thesis
    by (simp add: validate_after_stages [OF sample_token_decodes sample_token_verifies
          sample_token_parses])
qed

lemma scan_of_valid:
  assumes "validateQRPayload L cfg now_ms qrPayload = \<lparr>valid = True, payload = Some pl, error = None\<rparr>"
  shows "scan L cfg st now_ms studentUserId qrPayload =
           (case scan_checks L st now_ms studentUserId pl of
              Inl r \<Rightarrow> (r, st)
            | Inr w \<Rightarrow> scan_record st w)"
  using assms by (simp add: scan_def)

lemma ledger_stored:
  "ledger st sid = (case stored_session st sid of None \<Rightarrow> [] | Some s \<Rightarrow> s_usedNonces s)"
  by (simp add: ledger_def stored_session_def)

lemma findById_stored:
  assumes "castObjectId L x = Some sid"
  shows "Session_findById L st x = Inr (stored_session st sid)"
  using assms by (simp add: Session_findById_def stored_session_def)

lemma find_closed:
  assumes "find (\<lambda>s. s_id s = sid) xs = Some x"
  shows "find (\<lambda>s. s_id s = sid)
           (map (\<lambda>s. if s_id s = sid then s\<lparr>s_active := False, s_endTime := Some t\<rparr> else s) xs)
         = Some (x\<lparr>s_active := False, s_endTime := Some t\<rparr>)"
  using assms by (induction xs) (auto split: if_splits)


lemma find_Some_mem: "find P xs = Some x \<Longrightarrow> x \<in> set xs"
  by (induction xs) (auto split: if_splits)

lemma find_exists: "x \<in> set xs \<Longrightarrow> P x \<Longrightarrow> \<exists>y. find P xs = Some y"
  by (induction xs) auto

text \<open>
  Claim C8. A redemption whose token validates and whose session exists but is not active
  is answered with \<^verbatim>\<open>This attendance session has ended.\<close> and leaves the store as it
  was: no nonce is recorded and no attendance is created, since the test of \<^verbatim>\<open>active\<close>
  comes before the replay, department and duplicate checks. In particular this is the
  answer after the teacher has stopped the session that the token names.
\<close>

theorem closed_session_rejected:
  assumes "validateQRPayload L cfg now_ms qrPayload
             = \<lparr>valid = True, payload = Some pl, error = None\<rparr>"
  shows "(Session_findById L st (p_sessionId pl) = Inr (Some session) \<and> \<not> s_active session
            \<longrightarrow> scan L cfg st now_ms studentUserId qrPayload = (SessionEnded, st))
       \<and> (findActiveSession st teacherId = Some session
            \<and> castObjectId L (p_sessionId pl) = Some (s_id session)
            \<longrightarrow> scan L cfg (snd (stop st stop_ms teacherId)) now_ms studentUserId qrPayload
                  = (SessionEnded, snd (stop st stop_ms teacherId)))"
proof (intro conjI impI)
  assume "Session_findById L st (p_sessionId pl) = Inr (Some session) \<and> \<not> s_active session"
  then show "scan L cfg st now_ms studentUserId qrPayload = (SessionEnded, st)"
    by (simp add: scan_of_valid [OF assms] scan_checks_def)
next
  assume h: "findActiveSession st teacherId = Some session
            \<and> castObjectId L (p_sessionId pl) = Some (s_id session)"
  let ?st = "snd (stop st stop_ms teacherId)"
  have st: "?st = Session_close st (s_id session) stop_ms"
    using h by (simp add: stop_def stop_write_def Let_def)
  have "session \<in> set (sessions st)"
    using h by (auto simp: findActiveSession_def dest: find_Some_mem)
  then obtain x where x: "find (\<lambda>s. s_id s = s_id session) (sessions st) = Some x"
    using find_exists [of session "sessions st" "\<lambda>s. s_id s = s_id session"] by auto
  have "Session_findById L ?st (p_sessionId pl)
          = Inr (Some (x\<lparr>s_active := False, s_endTime := Some stop_ms\<rparr>))"
    using h by (simp add: Session_findById_def st Session_close_def find_closed [OF x])
  then show "scan L cfg ?st now_ms studentUserId qrPayload = (SessionEnded, ?st)"
    by (simp add: scan_of_valid [OF assms] scan_checks_def)
qed

lemma sample_stop:
  "stop sample_open 1700000001000 ''64b000000000000000000001''
     = (SessionStopped (sample_session\<lparr>s_active := False, s_endTime := Some 1700000001000\<rparr>) 0,
        sample_closed)"
  by code_simp

lemma sample_active:
  "findActiveSession sample_open ''64b000000000000000000001'' = Some sample_session"
  by code_simp

lemma sample_cast:
  "castObjectId sample_runtime (p_sessionId sample_payload) = Some (s_id sample_session)"
  by code_simp

theorem closed_session_rejected_witness:
  "validateQRPayload sample_runtime sample_config 1700000002000 sample_token
     = \<lparr>valid = True, payload = Some sample_payload, error = None\<rparr>
   \<and> findActiveSession sample_open ''64b000000000000000000001'' = Some sample_session
   \<and> castObjectId sample_runtime (p_sessionId sample_payload) = Some (s_id sample_session)
   \<and> snd (stop sample_open 1700000001000 ''64b000000000000000000001'') = sample_closed
   \<and> scan sample_runtime sample_config sample_closed 1700000002000 ''64b0000000000000000000a1''
         sample_token = (SessionEnded, sample_closed)"
proof -
  have v: "validateQRPayload sample_runtime sample_config 1700000002000 sample_token
             = \<lparr>valid = True, payload = Some sample_payload, error = None\<rparr>"
    by (rule sample_token_valid) simp_all
  show ?thesis
    using closed_session_rejected [OF v, where st = sample_open and session = sample_session
        and studentUserId = "''64b0000000000000000000a1''"
        and teacherId = "''64b000000000000000000001''" and stop_ms = 1700000001000]
    by (simp add: v sample_active sample_cast sample_stop)
qed

subsection \<open>Minting\<close>

lemma slice_last:
  assumes "0 < k" and "k \<le> length xs"
  shows "slice_from (- int k) xs = drop (length xs - k) xs"
  using assms by (simp add: slice_from_def Let_def nat_diff_distrib' max_def)

lemma trim_usedNonces_long:
  assumes "100 < length (s_usedNonces session)"
  shows "s_usedNonces (trim_usedNonces session)
           = drop (length (s_usedNonces session) - 50) (s_usedNonces session)"
proof -
  have "slice_from (- int 50) (s_usedNonces session)
          = drop (length (s_usedNonces session) - 50) (s_usedNonces session)"
    using assms by (intro slice_last) simp_all
  with assms show ?thesis
    by (simp add: trim_usedNonces_def)
qed

lemma qr_current_store: "qr_store (qr_current L cfg st now_ms rnd teacherId) = st"
  by (simp add: qr_current_def Let_def split: option.splits)

lemma exec_mints:
  "exec L cfg st (map (\<lambda>(now_ms, rnd, teacherId). Mint now_ms rnd teacherId) mints) = st"
  by (induction mints) (auto simp: exec_def qr_current_store)

text \<open>
  Claim C10. Minting a credential writes nothing: the store after
  \<^verbatim>\<open>GET /attendance/qr/current\<close> is the store before it, after one mint and after any
  number of them, so every stored session keeps its \<^verbatim>\<open>usedNonces\<close>, \<^verbatim>\<open>active\<close> and
  \<^verbatim>\<open>endTime\<close>, and the minted nonce enters no ledger. When the handler's own copy of the
  session had more than 100 nonces and was cut to 50, the stored document still has them
  all.
\<close>

theorem mint_writes_nothing:
  "qr_store (qr_current L cfg st now_ms rnd teacherId) = st
   \<and> exec L cfg st (map (\<lambda>(now_ms, rnd, teacherId). Mint now_ms rnd teacherId) mints) = st
   \<and> ledger (qr_store (qr_current L cfg st now_ms rnd teacherId)) sid = ledger st sid
   \<and> (findActiveSession st teacherId = Some session
        \<and> QRCode_toDataURL L (fst (generateQRPayload L cfg now_ms rnd (s_id session) teacherId
                                      (s_subjectCode session))) = Some qrImage
        \<and> 100 < length (s_usedNonces session)
      \<longrightarrow> map_option s_usedNonces (qr_document (qr_current L cfg st now_ms rnd teacherId))
            = Some (drop (length (s_usedNonces session) - 50) (s_usedNonces session))
          \<and> findActiveSession (qr_store (qr_current L cfg st now_ms rnd teacherId)) teacherId
            = Some session)"
  by (simp add: qr_current_store exec_mints)
    (simp add: qr_current_def Let_def trim_usedNonces_long)

lemma sample_full_active:
  "findActiveSession sample_full ''64b000000000000000000001''
     = Some (sample_session\<lparr>s_usedNonces := sample_ledger\<rparr>)"
  by (simp add: findActiveSession_def sample_full_def sample_session_def)

lemma sample_ledger_length: "length sample_ledger = 113"
  by code_simp

lemma sample_render:
  "QRCode_toDataURL sample_runtime d = Some (''data:image/png;base64,'' @ d)"
  by (simp add: sample_runtime_def)

theorem mint_writes_nothing_witness:
  "findActiveSession sample_full ''64b000000000000000000001''
     = Some (sample_session\<lparr>s_usedNonces := sample_ledger\<rparr>)
   \<and> 100 < length sample_ledger
   \<and> map_option s_usedNonces
         (qr_document (qr_current sample_runtime sample_config sample_full 1700000002000
            sample_random2 ''64b000000000000000000001''))
       = Some (drop 63 sample_ledger)
   \<and> qr_store (qr_current sample_runtime sample_config sample_full 1700000002000
         sample_random2 ''64b000000000000000000001'') = sample_full
   \<and> findActiveSession
         (qr_store (qr_current sample_runtime sample_config sample_full 1700000002000
            sample_random2 ''64b000000000000000000001'')) ''64b000000000000000000001''
       = Some (sample_session\<lparr>s_usedNonces := sample_ledger\<rparr>)"
  using mint_writes_nothing [where L = sample_runtime and cfg = sample_config
      and st = sample_full and now_ms = 1700000002000 and rnd = sample_random2
      and teacherId = "''64b000000000000000000001''"
      and session = "sample_session\<lparr>s_usedNonces := sample_ledger\<rparr>"
      and mints = "[]"]
  by (simp add: sample_full_active sample_ledger_length sample_render)

subsection \<open>The nonce ledger in the redemption pipeline\<close>

lemma scan_catch_cases: "scan_catch e = DuplicateKey \<or> scan_catch e = ScanFailed"
  by (simp add: scan_catch_def)

lemma scan_catch_not_replay: "scan_catch e \<noteq> NonceReused"
  using scan_catch_cases [of e] by auto

text \<open>What the checks have established when they answer that the nonce was used.\<close>

lemma nonce_used_string: "nonce_used L usedNonces (JStr n) = (n \<in> set usedNonces)"
  by (simp add: nonce_used_def)


lemma checks_replay:
  assumes "scan_checks L st now_ms studentUserId pl = Inl NonceReused"
  shows "\<exists>session. Session_findById L st (p_sessionId pl) = Inr (Some session)
           \<and> s_active session \<and> JStr (s_teacherId session) = p_teacherId pl
           \<and> nonce_used L (s_usedNonces session) (p_nonce pl)"
proof (cases "Session_findById L st (p_sessionId pl)")
  case (Inl e)
  with assms show ?thesis
    by (simp add: scan_checks_def scan_catch_not_replay)
next
  case (Inr found)
  show ?thesis
  proof (cases found)
    case None
    with Inr assms show ?thesis
      by (simp add: scan_checks_def)
  next
    case (Some session)
    with Inr assms show ?thesis
      by (auto simp: scan_checks_def Let_def scan_catch_not_replay
          split: if_splits json.splits option.splits)
  qed
qed

text \<open>What the checks have established when they fail after the nonce test, or succeed.\<close>

lemma checks_fresh:
  assumes "after_nonce_test (scan_checks L st now_ms studentUserId pl)"
  shows "\<exists>session. Session_findById L st (p_sessionId pl) = Inr (Some session)
           \<and> s_active session \<and> JStr (s_teacherId session) = p_teacherId pl
           \<and> \<not> nonce_used L (s_usedNonces session) (p_nonce pl)"
proof (cases "Session_findById L st (p_sessionId pl)")
  case (Inl e)
  with assms scan_catch_cases [of e] show ?thesis
    by (auto simp: scan_checks_def after_nonce_test_def)
next
  case (Inr found)
  show ?thesis
  proof (cases found)
    case None
    with Inr assms show ?thesis
      by (simp add: scan_checks_def after_nonce_test_def)
  next
    case (Some session)
    with Inr assms show ?thesis
      by (auto simp: scan_checks_def after_nonce_test_def split: if_splits)
  qed
qed

lemma scan_record_not_replay: "fst (scan_record st w) \<noteq> NonceReused"
  by (cases w)
    (auto simp: scan_record_def scan_catch_not_replay split: sum.splits option.splits)

lemma scan_record_failed:
  assumes "Attendance_insert st (fst w) = Inl e"
  shows "scan_record st w = (scan_catch e, st)"
  using assms by (cases w) (simp add: scan_record_def)

text \<open>
  The replay response is given only for a nonce that the stored ledger of the session
  holds.
\<close>

lemma unrecorded_not_replay:
  assumes v: "validateQRPayload L cfg now_ms qrPayload
                = \<lparr>valid = True, payload = Some pl, error = None\<rparr>"
    and c: "castObjectId L (p_sessionId pl) = Some sid"
    and n: "p_nonce pl = JStr n"
    and u: "n \<notin> set (ledger st sid)"
  shows "fst (scan L cfg st now_ms studentUserId qrPayload) \<noteq> NonceReused"
proof
  assume r: "fst (scan L cfg st now_ms studentUserId qrPayload) = NonceReused"
  have "scan_checks L st now_ms studentUserId pl = Inl NonceReused"
  proof (cases "scan_checks L st now_ms studentUserId pl")
    case (Inl x)
    with r show ?thesis
      by (simp add: scan_of_valid [OF v])
  next
    case (Inr w)
    with r scan_record_not_replay [of st w] show ?thesis
      by (simp add: scan_of_valid [OF v])
  qed
  then obtain session where
    "Session_findById L st (p_sessionId pl) = Inr (Some session)"
    "nonce_used L (s_usedNonces session) (p_nonce pl)"
    using checks_replay by blast
  then have "stored_session st sid = Some session" "n \<in> set (s_usedNonces session)"
    by (simp_all add: findById_stored [OF c] n nonce_used_string)
  with u show False
    by (simp add: ledger_stored)
qed


text \<open>
  Claim C4, as amended. The nonce is looked up at step 5 and appended to \<^verbatim>\<open>usedNonces\<close>
  only in step 8, after the attendance document has been saved. A redemption that passes
  the token, session, teacher and nonce tests and then fails at the student, subject or
  department check or at the duplicate pre-check leaves the store as it was, with the
  nonce absent from the stored ledger of the session. As long as no other redemption has
  recorded the nonce in the meantime, that is, in every store in which the ledger of the
  session does not hold the nonce, a later submission of a valid token for the same
  session with the same nonce is not answered with the replay response. A record write
  that the storage rejects leaves the store, and so the ledger, as it was at the write.
\<close>

theorem failed_redemption_keeps_nonce:
  assumes v: "validateQRPayload L cfg now_ms qrPayload
             = \<lparr>valid = True, payload = Some pl, error = None\<rparr>"
    and c: "castObjectId L (p_sessionId pl) = Some sid"
    and n: "p_nonce pl = JStr n"
    and v': "validateQRPayload L cfg later_ms qrPayload'
             = \<lparr>valid = True, payload = Some pl', error = None\<rparr>"
    and c': "castObjectId L (p_sessionId pl') = Some sid"
    and n': "p_nonce pl' = JStr n"
  shows "(scan_checks L st now_ms studentUserId pl = Inl r
            \<and> r \<in> {StudentNotFound, SubjectNotFound, DepartmentMismatch, AlreadyMarkedToday}
          \<longrightarrow> scan L cfg st now_ms studentUserId qrPayload = (r, st)
              \<and> n \<notin> set (ledger st sid)
              \<and> fst (scan L cfg st later_ms studentUserId' qrPayload') \<noteq> NonceReused)
       \<and> (n \<notin> set (ledger st_later sid)
          \<longrightarrow> fst (scan L cfg st_later later_ms studentUserId' qrPayload') \<noteq> NonceReused)
       \<and> (Attendance_insert st_write (fst w) = Inl e
          \<longrightarrow> scan_record st_write w = (scan_catch e, st_write) \<and> scan_catch e \<noteq> NonceReused)"
proof (intro conjI impI)
  assume h: "scan_checks L st now_ms studentUserId pl = Inl r
            \<and> r \<in> {StudentNotFound, SubjectNotFound, DepartmentMismatch, AlreadyMarkedToday}"
  then show "scan L cfg st now_ms studentUserId qrPayload = (r, st)"
    by (simp add: scan_of_valid [OF v])
  from h have "after_nonce_test (scan_checks L st now_ms studentUserId pl)"
    by (auto simp: after_nonce_test_def)
  then obtain session where
    "Session_findById L st (p_sessionId pl) = Inr (Some session)"
    "\<not> nonce_used L (s_usedNonces session) (p_nonce pl)"
    using checks_fresh by blast
  then have "stored_session st sid = Some session" "n \<notin> set (s_usedNonces session)"
    by (simp_all add: findById_stored [OF c] n nonce_used_string)
  then show u: "n \<notin> set (ledger st sid)"
    by (simp add: ledger_stored)
  show "fst (scan L cfg st later_ms studentUserId' qrPayload') \<noteq> NonceReused"
    by (rule unrecorded_not_replay [OF v' c' n' u])
next
  assume "n \<notin> set (ledger st_later sid)"
  then show "fst (scan L cfg st_later later_ms studentUserId' qrPayload') \<noteq> NonceReused"
    by (rule unrecorded_not_replay [OF v' c' n'])
next
  assume "Attendance_insert st_write (fst w) = Inl e"
  then show "scan_record st_write w = (scan_catch e, st_write)"
    by (rule scan_record_failed)
next
  show "scan_catch e \<noteq> NonceReused"
    by (rule scan_catch_not_replay)
qed

lemma sample_checks_physics:
  "scan_checks sample_runtime sample_open now_ms ''64b0000000000000000000b2'' sample_payload
     = Inl DepartmentMismatch"
  by (simp add: scan_checks_def Session_findById_def)
    code_simp

lemma sample_checks_pass:
  "scan_checks sample_runtime sample_open 1700000002000 ''64b0000000000000000000a1'' sample_payload
     = Inr (sample_attendance, ''64b000000000000000000051'',
            Some ''000102030405060708090a0b0c0d0e0f'')"
  by code_simp

lemma sample_record:
  "scan_record sample_open
     (sample_attendance, ''64b000000000000000000051'', Some ''000102030405060708090a0b0c0d0e0f'')
     = (AttendanceMarked sample_attendance, sample_marked)"
  by code_simp

lemma sample_insert_again:
  "Attendance_insert sample_marked sample_attendance = Inl (MongoServerError 11000)"
  by code_simp

lemma sample_valid_2:
  "validateQRPayload sample_runtime sample_config 1700000002000 sample_token
     = \<lparr>valid = True, payload = Some sample_payload, error = None\<rparr>"
  by (rule sample_token_valid) simp_all

lemma sample_valid_3:
  "validateQRPayload sample_runtime sample_config 1700000003000 sample_token
     = \<lparr>valid = True, payload = Some sample_payload, error = None\<rparr>"
  by (rule sample_token_valid) simp_all

lemma sample_nonce:
  "p_nonce sample_payload = JStr ''000102030405060708090a0b0c0d0e0f''"
  by (simp add: sample_payload_def)

lemma sample_cast_id:
  "castObjectId sample_runtime (p_sessionId sample_payload) = Some ''64b000000000000000000051''"
  by code_simp

lemma sample_closed_ledger:
  "ledger sample_closed ''64b000000000000000000051'' = []"
  by code_simp

theorem failed_redemption_keeps_nonce_witness:
  "scan_checks sample_runtime sample_open 1700000002000 ''64b0000000000000000000b2'' sample_payload
     = Inl DepartmentMismatch
   \<and> scan sample_runtime sample_config sample_open 1700000002000 ''64b0000000000000000000b2''
         sample_token = (DepartmentMismatch, sample_open)
   \<and> ''000102030405060708090a0b0c0d0e0f'' \<notin> set (ledger sample_open ''64b000000000000000000051'')
   \<and> fst (scan sample_runtime sample_config sample_open 1700000003000
         ''64b0000000000000000000b2'' sample_token) \<noteq> NonceReused
   \<and> ''000102030405060708090a0b0c0d0e0f'' \<notin> set (ledger sample_closed ''64b000000000000000000051'')
   \<and> fst (scan sample_runtime sample_config sample_closed 1700000003000
         ''64b0000000000000000000b2'' sample_token) \<noteq> NonceReused
   \<and> Attendance_insert sample_marked sample_attendance = Inl (MongoServerError 11000)
   \<and> scan_record sample_marked
         (sample_attendance, ''64b000000000000000000051'',
          Some ''000102030405060708090a0b0c0d0e0f'')
       = (DuplicateKey, sample_marked)"
  using failed_redemption_keeps_nonce [OF sample_valid_2 sample_cast_id sample_nonce
      sample_valid_3 sample_cast_id sample_nonce, where st = sample_open
      and studentUserId = "''64b0000000000000000000b2''" and r = DepartmentMismatch
      and studentUserId' = "''64b0000000000000000000b2''" and st_later = sample_closed
      and st_write = sample_marked
      and w = "(sample_attendance, ''64b000000000000000000051'',
                Some ''000102030405060708090a0b0c0d0e0f'')"
      and e = "MongoServerError 11000"]
  by (simp add: sample_checks_physics sample_insert_again scan_catch_def sample_closed_ledger)

text \<open>
  The claim as the spec states it fails: a student of another department redeems a fresh
  token, is refused at the department check, and submits the same token again one second
  later; the answer is the department mismatch again, not the replay response, and the
  ledger of the session is still empty.
\<close>

theorem nonce_not_consumed_on_failure:
  "scan sample_runtime sample_config sample_open 1700000002000 ''64b0000000000000000000b2''
     sample_token = (DepartmentMismatch, sample_open)
   \<and> scan sample_runtime sample_config sample_open 1700000003000 ''64b0000000000000000000b2''
     sample_token = (DepartmentMismatch, sample_open)
   \<and> ledger sample_open ''64b000000000000000000051'' = []
   \<and> attendances sample_open = []"
  by (simp add: scan_of_valid [OF sample_valid_2] scan_of_valid [OF sample_valid_3]
      sample_checks_physics)
    (simp add: ledger_def sample_open_def sample_session_def sample_store_def)

subsection \<open>The unique index on attendance documents\<close>

lemma Session_close_attendances [simp]:
  "attendances (Session_close st sid now_ms) = attendances st"
  by (simp add: Session_close_def)

lemma Session_pushNonce_attendances [simp]:
  "attendances (Session_pushNonce st sid nonce) = attendances st"
  by (simp add: Session_pushNonce_def)

lemma start_write_attendances: "attendances (snd (start_write st now_ms w)) = attendances st"
  by (cases w)
    (auto simp: start_write_def Let_def Session_insert_def split: option.splits if_splits)

lemma start_attendances: "attendances (snd (start L st now_ms oid teacherId subjectCode)) = attendances st"
  by (cases "start_read L st now_ms oid teacherId subjectCode")
    (simp_all add: start_def start_write_attendances)

lemma stop_write_attendances: "attendances (snd (stop_write st now_ms session)) = attendances st"
  by (simp add: stop_write_def Let_def)

lemma stop_attendances: "attendances (snd (stop st now_ms teacherId)) = attendances st"
  by (simp add: stop_def stop_write_attendances split: option.splits)

lemma scan_record_unique:
  assumes "attendance_unique st"
  shows "attendance_unique (snd (scan_record st w))"
  using assms
  by (cases w)
    (auto simp: scan_record_def Attendance_insert_def attendance_unique_def
      split: option.splits)

lemma scan_unique:
  assumes "attendance_unique st"
  shows "attendance_unique (snd (scan L cfg st now_ms studentUserId qrPayload))"
  using assms scan_record_unique [OF assms]
  by (simp add: scan_def Let_def split: option.splits sum.splits)

lemma step_unique:
  assumes "attendance_unique st"
  shows "attendance_unique (step L cfg st ev)"
proof (cases ev)
  case (Start now_ms oid teacherId subjectCode)
  with assms show ?thesis
    by (simp add: attendance_unique_def start_attendances)
next
  case (Stop now_ms teacherId)
  with assms show ?thesis
    by (simp add: attendance_unique_def stop_attendances)
next
  case (Mint now_ms rnd teacherId)
  with assms show ?thesis
    by (simp add: qr_current_store)
next
  case (Scan now_ms studentUserId qrPayload)
  with assms show ?thesis
    by (simp add: scan_unique)
next
  case (StartWrite now_ms w)
  with assms show ?thesis
    by (simp add: attendance_unique_def start_write_attendances)
next
  case (StopWrite now_ms session)
  with assms show ?thesis
    by (simp add: attendance_unique_def stop_write_attendances)
next
  case (ScanWrite w)
  with assms show ?thesis
    by (simp add: scan_record_unique)
next
  case (Directory us subs ts)
  with assms show ?thesis
    by (simp add: attendance_unique_def)
qed

lemma exec_unique:
  assumes "attendance_unique st"
  shows "attendance_unique (exec L cfg st evs)"
  using assms
proof (induction evs arbitrary: st)
  case Nil
  then show ?case by (simp add: exec_def)
next
  case (Cons ev evs)
  from Cons.IH [OF step_unique [OF Cons.prems]] show ?case
    by (simp add: exec_def)
qed

lemma distinct_keys_one:
  assumes "distinct (map f xs)"
  shows "length (filter (\<lambda>x. f x = k) xs) \<le> 1"
  using assms
proof (induction xs)
  case Nil
  show ?case by simp
next
  case (Cons x xs)
  show ?case
  proof (cases "f x = k")
    case True
    from Cons.prems have "f x \<notin> f ` set xs"
      by simp
    with True have "\<forall>y \<in> set xs. f y \<noteq> k"
      by (metis imageI)
    then have "filter (\<lambda>y. f y = k) xs = []"
      by (simp add: filter_empty_conv)
    with True show ?thesis by simp
  next
    case False
    with Cons show ?thesis by simp
  qed
qed

lemma duplicate_write:
  assumes "attendance_key a \<in> set (map attendance_key (attendances st))"
  shows "Attendance_insert st a = Inl (MongoServerError 11000)"
    and "scan_record st (a, sid, nonce) = (DuplicateKey, st)"
  using assms by (simp_all add: Attendance_insert_def scan_record_def scan_catch_def)

text \<open>
  Claim C1. For every student, subject code and date at most one attendance document
  exists, in every state that a run of the handlers reaches from a state without
  duplicates, whatever the interleaving of the scans' writes: the compound unique index
  rejects a document whose key is present with the duplicate key error, code 11000, and
  the scan handler answers that error with
  \<^verbatim>\<open>Attendance already marked for this subject today.\<close>, leaving the store as it was. This
  holds whatever store the handler's own pre-check had read.
\<close>

theorem attendance_exactly_once:
  "(attendance_unique st
      \<longrightarrow> attendance_unique (exec L cfg st evs)
        \<and> length (filter (\<lambda>a. attendance_key a = (studentId, subjectCode, date))
                    (attendances (exec L cfg st evs))) \<le> 1)
   \<and> (attendance_key a \<in> set (map attendance_key (attendances st_write))
      \<longrightarrow> Attendance_insert st_write a = Inl (MongoServerError 11000)
        \<and> scan_record st_write (a, sid, nonce) = (DuplicateKey, st_write))
   \<and> (scan_checks L st_read now_ms studentUserId pl = Inr w
        \<and> attendance_key (fst w) \<in> set (map attendance_key (attendances st_write))
      \<longrightarrow> scan_record st_write w = (DuplicateKey, st_write))"
proof (intro conjI impI)
  assume u: "attendance_unique st"
  show "attendance_unique (exec L cfg st evs)"
    by (rule exec_unique [OF u])
  then show "length (filter (\<lambda>a. attendance_key a = (studentId, subjectCode, date))
                    (attendances (exec L cfg st evs))) \<le> 1"
    unfolding attendance_unique_def by (rule distinct_keys_one)
next
  assume k: "attendance_key a \<in> set (map attendance_key (attendances st_write))"
  show "Attendance_insert st_write a = Inl (MongoServerError 11000)"
    by (rule duplicate_write(1) [OF k])
  show "scan_record st_write (a, sid, nonce) = (DuplicateKey, st_write)"
    by (rule duplicate_write(2) [OF k])
next
  assume h: "scan_checks L st_read now_ms studentUserId pl = Inr w
        \<and> attendance_key (fst w) \<in> set (map attendance_key (attendances st_write))"
  obtain a sid nonce where w: "w = (a, sid, nonce)"
    by (cases w) auto
  with h duplicate_write(2) [of a st_write sid nonce]
  show "scan_record st_write w = (DuplicateKey, st_write)"
    by simp
qed

lemma sample_store_unique: "attendance_unique sample_store"
  by (simp add: attendance_unique_def sample_store_def)

lemma sample_scan:
  "scan sample_runtime sample_config sample_open 1700000002000 ''64b0000000000000000000a1''
     sample_token = (AttendanceMarked sample_attendance, sample_marked)"
  by (simp add: scan_of_valid [OF sample_valid_2] sample_checks_pass sample_record)

lemma sample_run:
  "exec sample_runtime sample_config sample_store
     [Start 1699999990000 ''64b000000000000000000051'' ''64b000000000000000000001'' ''ch401'',
      Scan 1700000002000 ''64b0000000000000000000a1'' sample_token,
      ScanWrite (sample_attendance, ''64b000000000000000000051'',
                 Some ''000102030405060708090a0b0c0d0e0f'')]
   = sample_marked"
  by (simp add: exec_def sample_start sample_scan duplicate_write(2) sample_marked_def)

theorem attendance_exactly_once_witness:
  "attendance_unique sample_store
   \<and> attendance_unique sample_marked
   \<and> length (filter (\<lambda>a. attendance_key a
                          = (''64b0000000000000000000a1'', ''CH401'', ''2023-11-14''))
               (attendances sample_marked)) \<le> 1
   \<and> scan_checks sample_runtime sample_open 1700000002000 ''64b0000000000000000000a1''
         sample_payload
       = Inr (sample_attendance, ''64b000000000000000000051'',
              Some ''000102030405060708090a0b0c0d0e0f'')
   \<and> attendance_key sample_attendance \<in> set (map attendance_key (attendances sample_marked))
   \<and> Attendance_insert sample_marked sample_attendance = Inl (MongoServerError 11000)
   \<and> scan_record sample_marked
         (sample_attendance, ''64b000000000000000000051'',
          Some ''000102030405060708090a0b0c0d0e0f'')
       = (DuplicateKey, sample_marked)"
proof -
  have k: "attendance_key sample_attendance
             \<in> set (map attendance_key (attendances sample_marked))"
    by (simp add: sample_marked_def)
  show ?thesis
    using attendance_exactly_once [where L = sample_runtime and cfg = sample_config
        and st = sample_store
        and evs = "[Start 1699999990000 ''64b000000000000000000051''
                      ''64b000000000000000000001'' ''ch401'',
                    Scan 1700000002000 ''64b0000000000000000000a1'' sample_token,
                    ScanWrite (sample_attendance, ''64b000000000000000000051'',
                               Some ''000102030405060708090a0b0c0d0e0f'')]"
        and studentId = "''64b0000000000000000000a1''" and subjectCode = "''CH401''"
        and date = "''2023-11-14''" and a = sample_attendance and st_write = sample_marked
        and sid = "''64b000000000000000000051''"
        and nonce = "Some ''000102030405060708090a0b0c0d0e0f''"
        and st_read = sample_open and now_ms = 1700000002000
        and studentUserId = "''64b0000000000000000000a1''" and pl = sample_payload
        and w = "(sample_attendance, ''64b000000000000000000051'',
                  Some ''000102030405060708090a0b0c0d0e0f'')"] k
    by (simp add: sample_store_unique sample_run sample_checks_pass)
qed

subsection \<open>How a stored session evolves\<close>




lemma find_append_Some:
  "find P xs = Some x \<Longrightarrow> find P (xs @ ys) = Some x"
  by (induction xs) (auto split: if_splits)







lemma stored_append:
  assumes "stored_session st sid = Some s"
  shows "stored_session (st\<lparr>sessions := sessions st @ [new]\<rparr>) sid = Some s"
  using assms by (simp add: stored_session_def find_append_Some)










subsection \<open>Replay\<close>








subsection \<open>Compaction of the ledger\<close>






subsection \<open>One active session for each teacher\<close>




















end
